theory Spec2Isabelle
  imports Complex_Main "HOL-Library.Word"
begin

section \<open>The Go Multicall3 example (examples/go/main.go)\<close>

text \<open>
  The example is one \<^verbatim>\<open>main\<close> function: load the configuration, dial the RPC endpoint,
  parse two ABIs, pack three calls on the DAI token, pack them into one
  \<^verbatim>\<open>aggregate\<close> call, issue it with \<^verbatim>\<open>CallContract\<close>, unpack the answer, and print
  four lines. Everything outside the file (the environment, the \<^verbatim>\<open>.env\<close> file, the RPC
  client, the ABI codec) is a field of the record \<open>world\<close>; the run itself is the
  function \<open>main\<close>, which returns the events of the run and the way the process ended.
  The arithmetic of \<^verbatim>\<open>math/big\<close> that formats the balance is modelled on integers.
\<close>

subsection \<open>Data\<close>

type_synonym bytes = "8 word list"

text \<open>\<^verbatim>\<open>common.Address\<close>: 20 bytes.\<close>

type_synonym Address = "160 word"

text \<open>Known contract addresses (lines 55-60).\<close>

definition multicall3Address :: Address where
  "multicall3Address = 0xcA11bde05977b3631167028862bE2a173976CA11"

definition daiAddress :: Address where
  "daiAddress = 0x6B175474E89094C44Da98b954EedeAC495271d0F"

definition vitalikAddress :: Address where
  "vitalikAddress = 0xd8dA6BF26964aF9D7eEd9e03E53415D37aA96045"

text \<open>\<^verbatim>\<open>Call\<close> represents a single call in the multicall (lines 62-66).\<close>

record Call =
  Target :: Address
  CallData :: bytes

text \<open>\<^verbatim>\<open>AggregateResult\<close> represents the result of a multicall aggregate (lines 68-72).\<close>

record AggregateResult =
  BlockNumber :: int
  ReturnData :: "bytes list"

text \<open>
  \<^verbatim>\<open>ethereum.CallMsg\<close>, with the fields the example sets (\<open>To\<close>, \<open>Data\<close>) and the
  value to transfer; a field the composite literal does not name keeps Go's zero value,
  which for \<open>Value\<close> is the nil pointer.
\<close>

record CallMsg =
  To :: "Address option"
  Data :: bytes
  Value :: "int option"

text \<open>
  The two ABI constants (lines 24-53) are JSON texts; they are kept by their content, the
  methods with the types of their inputs and outputs.
\<close>

datatype abi_type = AddressT | BytesT | StringT | UintT nat | TupleT "abi_type list" | SliceT abi_type

record abi_method =
  name :: string
  inputs :: "abi_type list"
  outputs :: "abi_type list"

type_synonym ABI = "abi_method list"

definition multicall3ABI :: ABI where
  "multicall3ABI =
     [\<lparr>name = ''aggregate'',
       inputs = [SliceT (TupleT [AddressT, BytesT])],
       outputs = [UintT 256, SliceT BytesT]\<rparr>]"

definition daiABI :: ABI where
  "daiABI =
     [\<lparr>name = ''symbol'', inputs = [], outputs = [StringT]\<rparr>,
      \<lparr>name = ''decimals'', inputs = [], outputs = [UintT 8]\<rparr>,
      \<lparr>name = ''balanceOf'', inputs = [AddressT], outputs = [UintT 256]\<rparr>]"

text \<open>The arguments the example hands to \<^verbatim>\<open>Pack\<close>: an address, or the list of calls.\<close>

datatype arg = ArgAddress Address | ArgCalls "Call list"

subsection \<open>The world outside the program\<close>

text \<open>
  An error value is kept by its text (\<^verbatim>\<open>%v\<close> prints \<^verbatim>\<open>err.Error()\<close>). A client is a
  handle. \<open>dotenv\<close> is what \<^verbatim>\<open>godotenv.Load()\<close> finds: an error, or the keys of the
  \<^verbatim>\<open>.env\<close> file. \<open>UnpackIntoInterface\<close> is one method in Go, typed by the variable it
  fills; there is one field for each of the four variable types the example fills.
\<close>

record world =
  dotenv :: "string + (string \<rightharpoonup> string)"
  environ :: "string \<rightharpoonup> string"
  Dial :: "string \<Rightarrow> string + nat"
  abi_JSON :: "ABI \<Rightarrow> string option"
  Pack :: "ABI \<Rightarrow> string \<Rightarrow> arg list \<Rightarrow> string + bytes"
  CallContract :: "nat \<Rightarrow> CallMsg \<Rightarrow> int option \<Rightarrow> string + bytes"
  UnpackAggregateResult :: "ABI \<Rightarrow> string \<Rightarrow> bytes \<Rightarrow> string + AggregateResult"
  UnpackString :: "ABI \<Rightarrow> string \<Rightarrow> bytes \<Rightarrow> string + string"
  UnpackUint8 :: "ABI \<Rightarrow> string \<Rightarrow> bytes \<Rightarrow> string + 8 word"
  UnpackBigInt :: "ABI \<Rightarrow> string \<Rightarrow> bytes \<Rightarrow> string + int"

text \<open>
  \<^verbatim>\<open>godotenv.Load\<close> adds the keys of the file to the process environment without
  overriding a variable that exists; on an error it adds nothing.
\<close>

definition godotenv_Load :: "world \<Rightarrow> string option" where
  "godotenv_Load w = (case dotenv w of Inl err \<Rightarrow> Some err | Inr file \<Rightarrow> None)"

definition loaded_environ :: "world \<Rightarrow> (string \<rightharpoonup> string)" where
  "loaded_environ w = (case dotenv w of Inl err \<Rightarrow> environ w | Inr file \<Rightarrow> file ++ environ w)"

text \<open>\<^verbatim>\<open>os.Getenv\<close>: the value, or the empty string when the variable is not present.\<close>

definition os_Getenv :: "world \<Rightarrow> string \<Rightarrow> string" where
  "os_Getenv w key = (case loaded_environ w key of None \<Rightarrow> '''' | Some v \<Rightarrow> v)"

subsection \<open>Events of a run and the ways it ends\<close>

datatype panic = ErrNaN | IndexOutOfRange nat nat

datatype event =
    LogPrint string
  | Printf string
  | DialEv string
  | CallContractEv nat CallMsg "int option"
  | CloseEv nat

text \<open>
  \<open>Return\<close>: \<^verbatim>\<open>main\<close> returned (status 0). \<open>os_Exit n\<close>: \<^verbatim>\<open>os.Exit(n)\<close>. \<open>Panic\<close>: a
  run-time panic that nothing recovers (the Go runtime exits with status 2).
\<close>

datatype ending = Return | os_Exit nat | Panic panic

record outcome =
  events :: "event list"
  exit :: ending

definition exit_status :: "ending \<Rightarrow> nat" where
  "exit_status e = (case e of Return \<Rightarrow> 0 | os_Exit n \<Rightarrow> n | Panic p \<Rightarrow> 2)"

text \<open>
  \<^verbatim>\<open>log.Fatal\<close> and \<^verbatim>\<open>log.Fatalf\<close> print the message and call \<^verbatim>\<open>os.Exit(1)\<close>: the
  program terminates immediately and deferred functions are not run.
\<close>

definition log_Fatal :: "event list \<Rightarrow> string \<Rightarrow> outcome" where
  "log_Fatal t msg = \<lparr>events = t @ [LogPrint msg], exit = os_Exit 1\<rparr>"

text \<open>
  After \<^verbatim>\<open>defer client.Close()\<close> (line 91), a panic and the return of \<^verbatim>\<open>main\<close> both run
  the deferred call before the process ends.
\<close>

definition panicked :: "event list \<Rightarrow> nat \<Rightarrow> panic \<Rightarrow> outcome" where
  "panicked t client p = \<lparr>events = t @ [CloseEv client], exit = Panic p\<rparr>"

definition returned :: "event list \<Rightarrow> nat \<Rightarrow> outcome" where
  "returned t client = \<lparr>events = t @ [CloseEv client], exit = Return\<rparr>"

subsection \<open>math/big: Int, Float, and the decimal text of a Float\<close>

text \<open>\<^verbatim>\<open>BitLen\<close>: the length of the absolute value in bits; 0 for 0.\<close>

fun bitLen :: "nat \<Rightarrow> nat" where
  "bitLen n = (if n = 0 then 0 else Suc (bitLen (n div 2)))"

text \<open>
  A \<^verbatim>\<open>big.Float\<close> is a sign, a mantissa and an exponent at a precision fixed per
  value. Go keeps the mantissa of a finite Float normalised, as a fraction in
  \<open>[0.5, 1)\<close>; here it is kept as an integer, and the value of a finite Float is
  \<open>fl_mant * 2 ^ fl_exp\<close> (negated when \<open>fl_neg\<close>) with \<open>fl_mant < 2 ^ fl_prec\<close>.
  The rounding mode of a new Float is to-nearest-even. The exponents of the example are
  far from the range at which a Float overflows.
\<close>

datatype form = form_zero | form_finite | form_inf

record Float =
  fl_prec :: nat
  fl_form :: form
  fl_neg :: bool
  fl_mant :: nat
  fl_exp :: int

text \<open>
  \<^verbatim>\<open>new(big.Float).SetInt(x)\<close>: the precision of the new Float is 0, so it becomes the
  larger of \<^verbatim>\<open>x.BitLen()\<close> and 64, and the value is exact.
\<close>

definition SetInt :: "int \<Rightarrow> Float" where
  "SetInt x =
     \<lparr>fl_prec = max (bitLen (nat \<bar>x\<bar>)) 64,
      fl_form = (if x = 0 then form_zero else form_finite),
      fl_neg = (x < 0),
      fl_mant = nat \<bar>x\<bar>,
      fl_exp = 0\<rparr>"

text \<open>\<open>n / d\<close> rounded to the nearest integer, a tie to the even one.\<close>

definition roundHalfEven :: "nat \<Rightarrow> nat \<Rightarrow> nat" where
  "roundHalfEven n d =
     (let q = n div d; r = n mod d
      in if d < 2 * r \<or> (2 * r = d \<and> odd q) then q + 1 else q)"

text \<open>\<open>a * 2 ^ s / b\<close> as a numerator and a denominator, for an exponent of either sign.\<close>

definition scaled :: "nat \<Rightarrow> nat \<Rightarrow> int \<Rightarrow> nat \<times> nat" where
  "scaled a b s = (if 0 \<le> s then (a * 2 ^ nat s, b) else (a, b * 2 ^ nat (- s)))"

text \<open>
  The quotient of two finite Floats is the exact quotient rounded to \<open>p\<close> mantissa
  bits (Go divides the mantissas with enough extra bits for a rounding bit, takes a
  sticky bit from the remainder, and rounds to nearest-even). \<open>quoShift\<close> is the
  power of two that brings \<open>a / b\<close> into \<open>[2 ^ (p - 1), 2 ^ p)\<close>, the scaled quotient is
  rounded to nearest-even there, and a mantissa that rounds up to \<open>2 ^ p\<close> is renormalised.
\<close>

definition quoShift :: "nat \<Rightarrow> nat \<Rightarrow> nat \<Rightarrow> int" where
  "quoShift p a b =
     (let s0 = int p - (int (bitLen a) - int (bitLen b))
      in if 2 ^ p \<le> fst (scaled a b s0) div snd (scaled a b s0) then s0 - 1 else s0)"

definition uquo :: "nat \<Rightarrow> Float \<Rightarrow> Float \<Rightarrow> nat \<times> int" where
  "uquo p x y =
     (let s = quoShift p (fl_mant x) (fl_mant y);
          m = roundHalfEven (fst (scaled (fl_mant x) (fl_mant y) s))
                (snd (scaled (fl_mant x) (fl_mant y) s));
          e = fl_exp x - fl_exp y - s
      in if m = 2 ^ p then (2 ^ (p - 1), e + 1) else (m, e))"

text \<open>
  \<^verbatim>\<open>new(big.Float).Quo(x, y)\<close>: the precision of the result is the larger of the
  operands' precisions; zero by zero and infinity by infinity panic with \<^verbatim>\<open>ErrNaN\<close>.
\<close>

definition Quo :: "Float \<Rightarrow> Float \<Rightarrow> panic + Float" where
  "Quo x y =
     (let p = max (fl_prec x) (fl_prec y); sgn = (fl_neg x \<noteq> fl_neg y)
      in if fl_form x = form_finite \<and> fl_form y = form_finite then
           Inr \<lparr>fl_prec = p, fl_form = form_finite, fl_neg = sgn,
                fl_mant = fst (uquo p x y), fl_exp = snd (uquo p x y)\<rparr>
         else if (fl_form x = form_zero \<and> fl_form y = form_zero)
                 \<or> (fl_form x = form_inf \<and> fl_form y = form_inf) then
           Inl ErrNaN
         else if fl_form x = form_zero \<or> fl_form y = form_inf then
           Inr \<lparr>fl_prec = p, fl_form = form_zero, fl_neg = sgn, fl_mant = 0, fl_exp = 0\<rparr>
         else
           Inr \<lparr>fl_prec = p, fl_form = form_inf, fl_neg = sgn, fl_mant = 0, fl_exp = 0\<rparr>)"

definition digit :: "nat \<Rightarrow> char" where
  "digit n = ''0123456789'' ! n"

text \<open>The decimal digits of a natural number.\<close>

fun decimal :: "nat \<Rightarrow> string" where
  "decimal n = (if n < 10 then [digit n] else decimal (n div 10) @ [digit (n mod 10)])"

text \<open>The last \<open>w\<close> decimal digits of \<open>n\<close>, with leading zeros.\<close>

fun fraction :: "nat \<Rightarrow> nat \<Rightarrow> string" where
  "fraction w n = (if w = 0 then [] else fraction (w - 1) (n div 10) @ [digit (n mod 10)])"

text \<open>\<^verbatim>\<open>(*big.Int).String()\<close>: base 10, with a minus sign for a negative value.\<close>

definition Int_String :: "int \<Rightarrow> string" where
  "Int_String x = (if x < 0 then ''-'' else '''') @ decimal (nat \<bar>x\<bar>)"

text \<open>
  \<^verbatim>\<open>x.Text('f', prec)\<close> converts the exact value of \<open>x\<close> to decimal, rounds it to
  \<open>prec\<close> digits after the point (to nearest, a tie to even) and writes the integer
  digits, then a point and \<open>prec\<close> digits when \<open>prec > 0\<close>. \<open>decimalRound x prec\<close> is
  the rounded value in units of \<open>10 ^ - prec\<close>; \<open>fmtF\<close> writes the digits.
\<close>

definition decimalRound :: "Float \<Rightarrow> nat \<Rightarrow> nat" where
  "decimalRound x prec =
     (if fl_form x = form_zero then 0
      else if 0 \<le> fl_exp x then fl_mant x * 2 ^ nat (fl_exp x) * 10 ^ prec
      else roundHalfEven (fl_mant x * 10 ^ prec) (2 ^ nat (- fl_exp x)))"

definition fmtF :: "nat \<Rightarrow> nat \<Rightarrow> string" where
  "fmtF prec r =
     decimal (r div 10 ^ prec) @
     (if 0 < prec then ''.'' @ fraction prec (r mod 10 ^ prec) else '''')"

definition Text_f :: "Float \<Rightarrow> nat \<Rightarrow> string" where
  "Text_f x prec =
     (if fl_neg x then ''-'' else '''') @
     (if fl_form x = form_inf then (if fl_neg x then '''' else ''+'') @ ''Inf''
      else fmtF prec (decimalRound x prec))"

text \<open>
  The real number a Float stands for: the signed mantissa times the power of two for a
  finite Float, zero for a zero (an infinity stands for no real number and gets 0 here).
\<close>

definition Float_value :: "Float \<Rightarrow> real" where
  "Float_value x =
     (if fl_form x = form_finite
      then (if fl_neg x then - 1 else 1) * (real (fl_mant x) * 2 powi fl_exp x)
      else 0)"

subsection \<open>The balance in human readable format (lines 164-165, 171)\<close>

text \<open>
  \<^verbatim>\<open>daiBalanceFloat := new(big.Float).Quo(new(big.Float).SetInt(daiBalance),
  new(big.Float).SetInt(new(big.Int).Exp(big.NewInt(10), big.NewInt(int64(decimals)), nil)))\<close>
\<close>

definition daiBalanceFloat :: "int \<Rightarrow> 8 word \<Rightarrow> panic + Float" where
  "daiBalanceFloat daiBalance decimals =
     Quo (SetInt daiBalance) (SetInt (10 ^ unat decimals))"

text \<open>
  The text the last line prints for the balance, \<^verbatim>\<open>daiBalanceFloat.Text('f', 18)\<close>.
  The quotient of line 165 is the only step of the two that can panic, and it is
  computed before anything is printed.
\<close>

definition balanceText :: "int \<Rightarrow> 8 word \<Rightarrow> panic + string" where
  "balanceText daiBalance decimals =
     (case daiBalanceFloat daiBalance decimals of
        Inl p \<Rightarrow> Inl p
      | Inr f \<Rightarrow> Inr (Text_f f 18))"

subsection \<open>The steps of main\<close>

definition newline :: string where
  "newline = [CHR 0x0A]"

text \<open>Load environment variables; get the RPC URL from the environment (lines 75-84).\<close>

definition config :: "world \<Rightarrow> outcome + (event list \<times> string)" where
  "config w =
     (let t = (case godotenv_Load w of
                 Some err \<Rightarrow> [LogPrint ''No .env file found, using system environment variables'']
               | None \<Rightarrow> []);
          rpcURL = os_Getenv w ''MAINNET_RPC_URL''
      in if rpcURL = '''' then
           Inl (log_Fatal t ''MAINNET_RPC_URL environment variable is required'')
         else Inr (t, rpcURL))"

text \<open>Connect to the Ethereum client (lines 86-91).\<close>

definition connect :: "world \<Rightarrow> event list \<Rightarrow> string \<Rightarrow> outcome + (event list \<times> nat)" where
  "connect w t rpcURL =
     (case Dial w rpcURL of
        Inl err \<Rightarrow>
          Inl (log_Fatal (t @ [DialEv rpcURL])
                 (''Failed to connect to the Ethereum client: '' @ err))
      | Inr client \<Rightarrow> Inr (t @ [DialEv rpcURL], client))"

text \<open>Parse the ABIs (lines 93-102).\<close>

definition parseABIs :: "world \<Rightarrow> event list \<Rightarrow> outcome + (ABI \<times> ABI)" where
  "parseABIs w t =
     (case abi_JSON w multicall3ABI of
        Some err \<Rightarrow> Inl (log_Fatal t (''Failed to parse Multicall3 ABI: '' @ err))
      | None \<Rightarrow>
     (case abi_JSON w daiABI of
        Some err \<Rightarrow> Inl (log_Fatal t (''Failed to parse DAI ABI: '' @ err))
      | None \<Rightarrow> Inr (multicall3ABI, daiABI)))"

text \<open>Prepare the calls (lines 104-122).\<close>

definition prepareCalls :: "world \<Rightarrow> event list \<Rightarrow> ABI \<Rightarrow> outcome + Call list" where
  "prepareCalls w t daiABIParsed =
     (case Pack w daiABIParsed ''symbol'' [] of
        Inl err \<Rightarrow> Inl (log_Fatal t (''Failed to pack symbol call: '' @ err))
      | Inr symbolData \<Rightarrow>
     (case Pack w daiABIParsed ''decimals'' [] of
        Inl err \<Rightarrow> Inl (log_Fatal t (''Failed to pack decimals call: '' @ err))
      | Inr decimalsData \<Rightarrow>
     (case Pack w daiABIParsed ''balanceOf'' [ArgAddress vitalikAddress] of
        Inl err \<Rightarrow> Inl (log_Fatal t (''Failed to pack balanceOf call: '' @ err))
      | Inr balanceData \<Rightarrow>
          Inr ((([] @ [\<lparr>Target = daiAddress, CallData = symbolData\<rparr>])
                   @ [\<lparr>Target = daiAddress, CallData = decimalsData\<rparr>])
                   @ [\<lparr>Target = daiAddress, CallData = balanceData\<rparr>]))))"

text \<open>Pack the multicall, execute it and unpack the result (lines 124-145).\<close>

definition execute ::
  "world \<Rightarrow> event list \<Rightarrow> nat \<Rightarrow> ABI \<Rightarrow> Call list \<Rightarrow> outcome + (event list \<times> AggregateResult)" where
  "execute w t client multicallABI calls =
     (case Pack w multicallABI ''aggregate'' [ArgCalls calls] of
        Inl err \<Rightarrow> Inl (log_Fatal t (''Failed to pack multicall: '' @ err))
      | Inr multicallData \<Rightarrow>
     (let msg = \<lparr>To = Some multicall3Address, Data = multicallData, Value = None\<rparr>;
          t' = t @ [CallContractEv client msg None]
      in case CallContract w client msg None of
           Inl err \<Rightarrow> Inl (log_Fatal t' (''Failed to execute multicall: '' @ err))
         | Inr result \<Rightarrow>
        (case UnpackAggregateResult w multicallABI ''aggregate'' result of
           Inl err \<Rightarrow> Inl (log_Fatal t' (''Failed to unpack multicall result: '' @ err))
         | Inr aggregateResult \<Rightarrow> Inr (t', aggregateResult))))"

text \<open>
  Unpack the three results (lines 147-163). An index expression of Go panics when the
  index is out of range; the argument \<^verbatim>\<open>aggregateResult.ReturnData[i]\<close> is evaluated
  before the call of \<^verbatim>\<open>UnpackIntoInterface\<close>.
\<close>

definition index :: "bytes list \<Rightarrow> nat \<Rightarrow> panic + bytes" where
  "index xs i = (if i < length xs then Inr (xs ! i) else Inl (IndexOutOfRange i (length xs)))"

definition unpackResults ::
  "world \<Rightarrow> event list \<Rightarrow> nat \<Rightarrow> ABI \<Rightarrow> AggregateResult \<Rightarrow> outcome + (string \<times> 8 word \<times> int)" where
  "unpackResults w t client daiABIParsed aggregateResult =
     (case index (ReturnData aggregateResult) 0 of
        Inl p \<Rightarrow> Inl (panicked t client p)
      | Inr data0 \<Rightarrow>
     (case UnpackString w daiABIParsed ''symbol'' data0 of
        Inl err \<Rightarrow> Inl (log_Fatal t (''Failed to unpack symbol: '' @ err))
      | Inr symbol \<Rightarrow>
     (case index (ReturnData aggregateResult) 1 of
        Inl p \<Rightarrow> Inl (panicked t client p)
      | Inr data1 \<Rightarrow>
     (case UnpackUint8 w daiABIParsed ''decimals'' data1 of
        Inl err \<Rightarrow> Inl (log_Fatal t (''Failed to unpack decimals: '' @ err))
      | Inr decimals \<Rightarrow>
     (case index (ReturnData aggregateResult) 2 of
        Inl p \<Rightarrow> Inl (panicked t client p)
      | Inr data2 \<Rightarrow>
     (case UnpackBigInt w daiABIParsed ''balanceOf'' data2 of
        Inl err \<Rightarrow> Inl (log_Fatal t (''Failed to unpack balance: '' @ err))
      | Inr daiBalance \<Rightarrow> Inr (symbol, decimals, daiBalance)))))))"

text \<open>Convert the balance and display the results (lines 164-172).\<close>

definition display ::
  "event list \<Rightarrow> nat \<Rightarrow> AggregateResult \<Rightarrow> string \<Rightarrow> 8 word \<Rightarrow> int \<Rightarrow> outcome" where
  "display t client aggregateResult symbol decimals daiBalance =
     (case balanceText daiBalance decimals of
        Inl p \<Rightarrow> panicked t client p
      | Inr balance \<Rightarrow>
          returned
            (t @ [Printf (''Block Number: '' @ Int_String (BlockNumber aggregateResult) @ newline),
                  Printf (''DAI Symbol: '' @ symbol @ newline),
                  Printf (''DAI Decimals: '' @ decimal (unat decimals) @ newline),
                  Printf (''Vitalik's '' @ symbol @ '' balance: '' @ balance @ newline)])
            client)"

text \<open>
  The run up to the open connection (lines 75-91), the parsed ABIs (lines 75-102), the
  prepared calls (lines 75-122) and the decoded aggregate result (lines 75-145): each is
  the step before it followed by one more step, and a fatal exit ends the run.
\<close>

definition dialed :: "world \<Rightarrow> outcome + (event list \<times> nat)" where
  "dialed w =
     (case config w of Inl out \<Rightarrow> Inl out
      | Inr (t, rpcURL) \<Rightarrow> connect w t rpcURL)"

definition parsed :: "world \<Rightarrow> outcome + (event list \<times> nat \<times> ABI \<times> ABI)" where
  "parsed w =
     (case dialed w of Inl out \<Rightarrow> Inl out
      | Inr (t, client) \<Rightarrow>
     (case parseABIs w t of Inl out \<Rightarrow> Inl out
      | Inr (multicallABI, daiABIParsed) \<Rightarrow> Inr (t, client, multicallABI, daiABIParsed)))"

definition prepared :: "world \<Rightarrow> outcome + (event list \<times> nat \<times> ABI \<times> ABI \<times> Call list)" where
  "prepared w =
     (case parsed w of Inl out \<Rightarrow> Inl out
      | Inr (t, client, multicallABI, daiABIParsed) \<Rightarrow>
     (case prepareCalls w t daiABIParsed of Inl out \<Rightarrow> Inl out
      | Inr calls \<Rightarrow> Inr (t, client, multicallABI, daiABIParsed, calls)))"

definition fetch :: "world \<Rightarrow> outcome + (event list \<times> nat \<times> ABI \<times> AggregateResult)" where
  "fetch w =
     (case prepared w of Inl out \<Rightarrow> Inl out
      | Inr (t, client, multicallABI, daiABIParsed, calls) \<Rightarrow>
     (case execute w t client multicallABI calls of Inl out \<Rightarrow> Inl out
      | Inr (t', aggregateResult) \<Rightarrow> Inr (t', client, daiABIParsed, aggregateResult)))"

definition main :: "world \<Rightarrow> outcome" where
  "main w =
     (case fetch w of Inl out \<Rightarrow> out
      | Inr (t, client, daiABIParsed, aggregateResult) \<Rightarrow>
     (case unpackResults w t client daiABIParsed aggregateResult of Inl out \<Rightarrow> out
      | Inr (symbol, decimals, daiBalance) \<Rightarrow>
          display t client aggregateResult symbol decimals daiBalance))"

subsection \<open>Observations on a run\<close>

fun isPrintf :: "event \<Rightarrow> bool" where
  "isPrintf (Printf s) = True"
| "isPrintf e = False"

fun isNetwork :: "event \<Rightarrow> bool" where
  "isNetwork (DialEv url) = True"
| "isNetwork (CallContractEv client msg blockNumber) = True"
| "isNetwork e = False"

fun isCallContract :: "event \<Rightarrow> bool" where
  "isCallContract (CallContractEv client msg blockNumber) = True"
| "isCallContract e = False"

fun isClose :: "event \<Rightarrow> bool" where
  "isClose (CloseEv client) = True"
| "isClose e = False"

definition noOutput :: "outcome \<Rightarrow> bool" where
  "noOutput out = (filter isPrintf (events out) = [])"

text \<open>
  A fatal exit with a message: status 1, the message is the last thing logged, and
  nothing was printed.
\<close>

definition fatal :: "outcome \<Rightarrow> string \<Rightarrow> bool" where
  "fatal out msg =
     (exit out = os_Exit 1 \<and> events out \<noteq> [] \<and> last (events out) = LogPrint msg \<and> noOutput out)"

text \<open>What \<^verbatim>\<open>godotenv.Load\<close> leaves in the log.\<close>

definition loadLog :: "world \<Rightarrow> event list" where
  "loadLog w = (case godotenv_Load w of
      Some err \<Rightarrow> [LogPrint ''No .env file found, using system environment variables'']
    | None \<Rightarrow> [])"

text \<open>A fatal exit before the decoded result: nothing printed, nothing closed.\<close>

definition fatalExit :: "outcome \<Rightarrow> bool" where
  "fatalExit out = (\<exists>t msg. out = log_Fatal t msg \<and> filter isPrintf t = [] \<and> filter isClose t = [])"

text \<open>An outcome with one more event before the others.\<close>

definition logFirst :: "event \<Rightarrow> outcome \<Rightarrow> outcome" where
  "logFirst x out = out\<lparr>events := x # events out\<rparr>"

subsection \<open>The aggregation contract\<close>

text \<open>
  Modelled from the spec: the on-chain aggregation contract, whose code is not among the
  source files. It "accepts a list of (target, payload) calls and executes them all
  within one invocation, returning all results together": the response is the sequence
  number and an "ordered sequence of opaque byte sequences, one per submitted Call
  Request, in the same order", and "a single failing inner call fails the entire batch".
  The calls are independent read requests: \<open>exec\<close> answers one call, \<open>None\<close> when
  it fails.
\<close>

fun aggregateCalls :: "(Call \<Rightarrow> bytes option) \<Rightarrow> Call list \<Rightarrow> bytes list option" where
  "aggregateCalls exec [] = Some []"
| "aggregateCalls exec (c # cs) =
     (case exec c of
        None \<Rightarrow> None
      | Some r \<Rightarrow> (case aggregateCalls exec cs of None \<Rightarrow> None | Some rs \<Rightarrow> Some (r # rs)))"

definition aggregate :: "(Call \<Rightarrow> bytes option) \<Rightarrow> int \<Rightarrow> Call list \<Rightarrow> AggregateResult option" where
  "aggregate exec blockNumber calls =
     (case aggregateCalls exec calls of
        None \<Rightarrow> None
      | Some rs \<Rightarrow> Some \<lparr>BlockNumber = blockNumber, ReturnData = rs\<rparr>)"

subsection \<open>Test worlds\<close>

text \<open>
  A world in which every step succeeds: no \<^verbatim>\<open>.env\<close> file, the URL in the process
  environment, a codec that packs a call into its four-byte selector, and a node that
  answers with three entries, each decodable under one method only.
\<close>

definition selector :: "string \<Rightarrow> bytes" where
  "selector method =
     (if method = ''symbol'' then [0x95, 0xd8, 0x9b, 0x41]
      else if method = ''decimals'' then [0x31, 0x3c, 0xe5, 0x67]
      else if method = ''balanceOf'' then [0x70, 0xa0, 0x82, 0x31]
      else [0x25, 0x2d, 0xba, 0x42])"

definition okResult :: AggregateResult where
  "okResult = \<lparr>BlockNumber = 12345678, ReturnData = [[1], [2], [3]]\<rparr>"

definition okWorld :: world where
  "okWorld =
     \<lparr>dotenv = Inl ''open .env: no such file or directory'',
      environ = [''MAINNET_RPC_URL'' \<mapsto> ''http://localhost:8545''],
      Dial = (\<lambda>rawurl. Inr 7),
      abi_JSON = (\<lambda>abi. None),
      Pack = (\<lambda>abi method args. Inr (selector method)),
      CallContract = (\<lambda>client msg blockNumber. Inr [0]),
      UnpackAggregateResult = (\<lambda>abi method data. Inr okResult),
      UnpackString = (\<lambda>abi method data.
        if method = ''symbol'' \<and> data = [1] then Inr ''DAI'' else Inl ''abi: cannot unmarshal''),
      UnpackUint8 = (\<lambda>abi method data.
        if method = ''decimals'' \<and> data = [2] then Inr 18 else Inl ''abi: cannot unmarshal''),
      UnpackBigInt = (\<lambda>abi method data.
        if method = ''balanceOf'' \<and> data = [3] then Inr 1234567890123456789
        else Inl ''abi: cannot unmarshal'')\<rparr>"

text \<open>The calls that world prepares, and a chain that answers them.\<close>

definition okCalls :: "Call list" where
  "okCalls =
     [\<lparr>Target = daiAddress, CallData = selector ''symbol''\<rparr>,
      \<lparr>Target = daiAddress, CallData = selector ''decimals''\<rparr>,
      \<lparr>Target = daiAddress, CallData = selector ''balanceOf''\<rparr>]"

definition okExec :: "Call \<Rightarrow> bytes option" where
  "okExec c =
     (if CallData c = selector ''symbol'' then Some [1]
      else if CallData c = selector ''decimals'' then Some [2]
      else if CallData c = selector ''balanceOf'' then Some [3]
      else None)"

text \<open>The same world without the variable.\<close>

definition noURLWorld :: world where
  "noURLWorld = okWorld\<lparr>environ := Map.empty\<rparr>"

text \<open>The same world with a node that reverts the aggregated call.\<close>

definition revertWorld :: world where
  "revertWorld = okWorld\<lparr>CallContract := (\<lambda>client msg blockNumber. Inl ''execution reverted'')\<rparr>"

text \<open>The same world with answers of no entry, and of one entry that does not decode.\<close>

definition emptyWorld :: world where
  "emptyWorld =
     okWorld\<lparr>UnpackAggregateResult :=
       (\<lambda>abi method data. Inr \<lparr>BlockNumber = 12345678, ReturnData = []\<rparr>)\<rparr>"

definition shortWorld :: world where
  "shortWorld =
     okWorld\<lparr>UnpackAggregateResult :=
       (\<lambda>abi method data. Inr \<lparr>BlockNumber = 12345678, ReturnData = [[9]]\<rparr>)\<rparr>"

text \<open>The same world with the variable in neither the environment nor the file.\<close>

definition noURLFileWorld :: world where
  "noURLFileWorld = okWorld\<lparr>dotenv := Inr [''OTHER_KEY'' \<mapsto> ''1''], environ := Map.empty\<rparr>"

text \<open>A world in which the named step returns an error and every other step succeeds.\<close>

definition failingWorld :: "string \<Rightarrow> world" where
  "failingWorld step =
     okWorld
       \<lparr>Dial := (\<lambda>rawurl. if step = ''connect'' then Inl ''connection refused'' else Inr 7),
        abi_JSON := (\<lambda>abi.
          if (step = ''parse Multicall3 ABI'' \<and> abi = multicall3ABI)
             \<or> (step = ''parse DAI ABI'' \<and> abi = daiABI)
          then Some ''invalid character'' else None),
        Pack := (\<lambda>abi method args.
          if step = ''pack '' @ method then Inl ''abi: cannot pack'' else Inr (selector method)),
        UnpackAggregateResult := (\<lambda>abi method data.
          if step = ''unpack aggregate'' then Inl ''abi: cannot unmarshal'' else Inr okResult),
        UnpackString := (\<lambda>abi method data.
          if step = ''unpack symbol'' then Inl ''abi: cannot unmarshal'' else Inr ''DAI''),
        UnpackUint8 := (\<lambda>abi method data.
          if step = ''unpack decimals'' then Inl ''abi: cannot unmarshal'' else Inr 18),
        UnpackBigInt := (\<lambda>abi method data.
          if step = ''unpack balance'' then Inl ''abi: cannot unmarshal''
          else Inr 1234567890123456789)\<rparr>"

text \<open>The events of these worlds up to the open connection, and the message they send.\<close>

definition okLog :: "event list" where
  "okLog =
     [LogPrint ''No .env file found, using system environment variables'',
      DialEv ''http://localhost:8545'']"

definition okMsg :: CallMsg where
  "okMsg = \<lparr>To = Some multicall3Address, Data = selector ''aggregate'', Value = None\<rparr>"

section \<open>Properties\<close>

subsection \<open>Evaluation of the recursive functions on numerals\<close>

declare bitLen.simps [simp del] decimal.simps [simp del] fraction.simps [simp del]

lemma bitLen_0: "bitLen 0 = 0"
  by (simp add: bitLen.simps)

lemma bitLen_pos: "0 < n \<Longrightarrow> bitLen n = Suc (bitLen (n div 2))"
  by (subst bitLen.simps) simp

lemma bitLen_bounds: "0 < n \<Longrightarrow> 2 ^ (bitLen n - 1) \<le> n \<and> n < 2 ^ bitLen n"
proof (induction n rule: bitLen.induct)
  case (1 n)
  show ?case
  proof (cases "n div 2 = 0")
    case True
    with "1.prems" have "n = 1" by (simp add: div_eq_0_iff)
    then show ?thesis by (simp add: bitLen_pos bitLen_0)
  next
    case False
    then have pos: "0 < n div 2" by simp
    from "1.IH" [OF _ pos] "1.prems"
    have ih: "2 ^ (bitLen (n div 2) - 1) \<le> n div 2" "n div 2 < 2 ^ bitLen (n div 2)" by simp_all
    have b: "0 < bitLen (n div 2)" using pos by (simp add: bitLen_pos)
    have "2 ^ bitLen (n div 2) = (2::nat) * 2 ^ (bitLen (n div 2) - 1)"
      using b by (cases "bitLen (n div 2)") simp_all
    with ih "1.prems" show ?thesis
      by (simp add: bitLen_pos [of n]) linarith
  qed
qed

lemma bitLen_eqI:
  assumes "0 < l" "2 ^ (l - 1) \<le> n" "n < 2 ^ l"
  shows "bitLen n = l"
proof -
  have pos: "0 < n" using assms(2) by (cases n) simp_all
  from bitLen_bounds [OF pos] have lo: "2 ^ (bitLen n - 1) \<le> n" and hi: "n < 2 ^ bitLen n"
    by simp_all
  have "(2::nat) ^ (l - 1) < 2 ^ bitLen n" using assms(2) hi by linarith
  then have 1: "l - 1 < bitLen n"
    by (simp only: power_strict_increasing_iff one_less_numeral_iff semiring_norm)
  have "(2::nat) ^ (bitLen n - 1) < 2 ^ l" using lo assms(3) by linarith
  then have 2: "bitLen n - 1 < l"
    by (simp only: power_strict_increasing_iff one_less_numeral_iff semiring_norm)
  from 1 2 assms(1) show ?thesis by linarith
qed

lemma SetInt_sel:
  "fl_prec (SetInt x) = max (bitLen (nat \<bar>x\<bar>)) 64"
  "fl_form (SetInt x) = (if x = 0 then form_zero else form_finite)"
  "fl_neg (SetInt x) = (x < 0)"
  "fl_mant (SetInt x) = nat \<bar>x\<bar>"
  "fl_exp (SetInt x) = 0"
  by (simp_all add: SetInt_def)

lemma decimal_small: "n < 10 \<Longrightarrow> decimal n = [digit n]"
  by (subst decimal.simps) simp

lemma decimal_numeral:
  "decimal (numeral k) =
     (if (numeral k :: nat) < 10 then [digit (numeral k)]
      else decimal (numeral k div 10) @ [digit (numeral k mod 10)])"
  by (rule decimal.simps)

lemma fraction_0: "fraction 0 n = []"
  by (simp add: fraction.simps)

lemma fraction_1: "fraction (Suc 0) n = [digit (n mod 10)]"
  by (subst fraction.simps) (simp add: fraction_0)

lemma fraction_numeral:
  "fraction (numeral k) n = fraction (numeral k - 1) (n div 10) @ [digit (n mod 10)]"
  by (simp add: fraction.simps [of "numeral k"])

lemmas eval_simps = decimal_small decimal_numeral
  fraction_0 fraction_1 fraction_numeral digit_def

subsection \<open>The balance of the specification's example\<close>

lemma bitLen_example: "bitLen 1234567890123456789 = 61" "bitLen 1000000000000000000 = 60"
  by (rule bitLen_eqI; simp)+

lemma quoShift_example: "quoShift 64 1234567890123456789 1000000000000000000 = 63"
  unfolding quoShift_def bitLen_example by (simp add: scaled_def)

lemma uquo_example:
  "uquo 64 (SetInt 1234567890123456789) (SetInt 1000000000000000000) = (11386878955363490701, -63)"
  by (simp add: uquo_def SetInt_sel quoShift_example scaled_def roundHalfEven_def)

lemma daiBalanceFloat_example:
  "daiBalanceFloat 1234567890123456789 18 =
     Inr \<lparr>fl_prec = 64, fl_form = form_finite, fl_neg = False,
          fl_mant = 11386878955363490701, fl_exp = -63\<rparr>"
  by (simp add: daiBalanceFloat_def Quo_def Let_def uquo_example SetInt_sel bitLen_example)

lemma decimalRound_example:
  "decimalRound \<lparr>fl_prec = 64, fl_form = form_finite, fl_neg = False,
      fl_mant = 11386878955363490701, fl_exp = -63\<rparr> 18 = 1234567890123456789"
  by (simp add: decimalRound_def roundHalfEven_def)

lemma fmtF_example: "fmtF 18 1234567890123456789 = ''1.234567890123456789''"
  by (simp add: fmtF_def eval_simps)

lemma balanceText_example:
  "balanceText 1234567890123456789 18 = Inr ''1.234567890123456789''"
  by (simp add: balanceText_def daiBalanceFloat_example Text_f_def decimalRound_example fmtF_example)

text \<open>
  C2. For a raw balance of 1,234,567,890,123,456,789 and 18 decimals, the text printed for
  the balance is exactly "1.234567890123456789": the quotient is rounded to 64 mantissa
  bits, and the decimal text of the rounded quotient, at 18 digits, is the exact one.
\<close>

theorem balance_example_text:
  "balanceText 1234567890123456789 18 = Inr ''1.234567890123456789''"
  by (rule balanceText_example)

subsection \<open>Digits\<close>

lemma bitLen_1: "bitLen (Suc 0) = Suc 0"
  by (simp add: bitLen_pos bitLen_0)

lemma roundHalfEven_exact: "0 < d \<Longrightarrow> roundHalfEven (k * d) d = k"
  by (simp add: roundHalfEven_def)

lemma fraction_Suc: "fraction (Suc w) n = fraction w (n div 10) @ [digit (n mod 10)]"
  by (subst fraction.simps) simp

lemma fraction_zero: "fraction w 0 = replicate w (CHR ''0'')"
proof (induction w)
  case 0
  show ?case by (simp add: fraction_0)
next
  case (Suc w)
  have "fraction (Suc w) 0 = replicate w (CHR ''0'') @ [CHR ''0'']"
    by (simp add: fraction_Suc Suc digit_def)
  then show ?case by (simp add: replicate_append_same)
qed

lemma length_fraction: "length (fraction w n) = w"
  by (induction w arbitrary: n) (simp_all add: fraction_0 fraction_Suc)

lemma digit_is_digit: "n < 10 \<Longrightarrow> digit n \<in> set ''0123456789''"
  unfolding digit_def by (rule nth_mem) simp

lemma set_fraction: "set (fraction w n) \<subseteq> set ''0123456789''"
proof (induction w arbitrary: n)
  case 0
  show ?case by (simp add: fraction_0)
next
  case (Suc w)
  have "digit (n mod 10) \<in> set ''0123456789''" by (rule digit_is_digit) simp
  with Suc [of "n div 10"] show ?case by (simp add: fraction_Suc)
qed

lemma set_decimal: "set (decimal n) \<subseteq> set ''0123456789''"
proof (induction n rule: decimal.induct)
  case (1 n)
  show ?case
  proof (cases "n < 10")
    case True
    with digit_is_digit [of n] show ?thesis by (simp add: decimal_small)
  next
    case False
    have d: "digit (n mod 10) \<in> set ''0123456789''" by (rule digit_is_digit) simp
    have "decimal n = decimal (n div 10) @ [digit (n mod 10)]"
      using False by (subst decimal.simps) simp
    with "1.IH" [OF False] d show ?thesis by simp
  qed
qed

lemma quoShift_one:
  assumes "0 < a" "bitLen a \<le> p"
  shows "quoShift p a (Suc 0) = int (p - bitLen a)"
proof -
  define k where "k = p - bitLen a"
  from bitLen_bounds [OF assms(1)] have lo: "2 ^ (bitLen a - 1) \<le> a" by simp
  have la: "0 < bitLen a" using assms(1) by (simp add: bitLen_pos)
  have s0: "int p - (int (bitLen a) - int (bitLen (Suc 0))) = int (Suc k)"
    using assms(2) by (simp add: k_def bitLen_1)
  have "p = (bitLen a - 1) + Suc k" using la assms(2) by (simp add: k_def)
  then have "(2::nat) ^ p = 2 ^ (bitLen a - 1) * 2 ^ Suc k" by (simp only: power_add)
  also have "\<dots> \<le> a * 2 ^ Suc k" using lo by (rule mult_le_mono1)
  finally have ge: "2 ^ p \<le> a * 2 ^ Suc k" .
  have sc: "scaled a (Suc 0) (int (Suc k)) = (a * 2 ^ Suc k, Suc 0)"
    by (simp add: scaled_def del: of_nat_Suc)
  show ?thesis
    unfolding quoShift_def s0 Let_def sc using ge by (simp add: k_def)
qed

lemma uquo_one:
  assumes "0 < fl_mant x" "bitLen (fl_mant x) \<le> p" "fl_mant y = Suc 0" "fl_exp x = 0" "fl_exp y = 0"
  shows "uquo p x y = (fl_mant x * 2 ^ (p - bitLen (fl_mant x)), - int (p - bitLen (fl_mant x)))"
proof -
  define a where "a = fl_mant x"
  define k where "k = p - bitLen a"
  have s: "quoShift p a (Suc 0) = int k"
    using assms(1,2) unfolding a_def k_def by (rule quoShift_one)
  from bitLen_bounds [of a] assms(1) have hi: "a < 2 ^ bitLen a" by (simp add: a_def)
  have "p = bitLen a + k" using assms(2) by (simp add: k_def a_def)
  then have "(2::nat) ^ p = 2 ^ bitLen a * 2 ^ k" by (simp only: power_add)
  moreover have "a * 2 ^ k < 2 ^ bitLen a * 2 ^ k" using hi by simp
  ultimately have ne: "a * 2 ^ k \<noteq> 2 ^ p" by simp
  have sc: "scaled a (Suc 0) (int k) = (a * 2 ^ k, Suc 0)" by (simp add: scaled_def)
  have r: "roundHalfEven (a * 2 ^ k) (Suc 0) = a * 2 ^ k"
    using roundHalfEven_exact [of "Suc 0" "a * 2 ^ k"] by simp
  show ?thesis
    unfolding uquo_def assms(3,4,5) a_def [symmetric] s Let_def sc fst_conv snd_conv r k_def [symmetric]
    using ne by simp
qed

lemma decimalRound_scaled:
  "decimalRound \<lparr>fl_prec = p, fl_form = form_finite, fl_neg = sg, fl_mant = a * 2 ^ k, fl_exp = - int k\<rparr> prec
     = a * 10 ^ prec"
proof (cases "k = 0")
  case True
  then show ?thesis by (simp add: decimalRound_def)
next
  case False
  have "roundHalfEven (a * 10 ^ prec * 2 ^ k) (2 ^ k) = a * 10 ^ prec"
    by (rule roundHalfEven_exact) simp
  with False show ?thesis by (simp add: decimalRound_def mult_ac)
qed

lemma fmtF_integer: "fmtF 18 (a * 10 ^ 18) = decimal a @ ''.'' @ replicate 18 (CHR ''0'')"
  by (simp add: fmtF_def fraction_zero)

lemma Text_scaled:
  "fmtF 18 (decimalRound \<lparr>fl_prec = p, fl_form = form_finite, fl_neg = sg,
      fl_mant = a * 2 ^ k, fl_exp = - int k\<rparr> 18) = decimal a @ ''.'' @ replicate 18 (CHR ''0'')"
  unfolding decimalRound_scaled by (rule fmtF_integer)

lemma balanceText_decimals_0:
  "balanceText daiBalance 0 = Inr (Int_String daiBalance @ ''.'' @ replicate 18 (CHR ''0''))"
proof (cases "daiBalance = 0")
  case True
  have "decimal 0 = ''0''" by (simp add: decimal_small digit_def)
  then show ?thesis
    using True fmtF_integer [of 0]
    by (simp add: balanceText_def daiBalanceFloat_def Quo_def SetInt_def Text_f_def
        decimalRound_def Int_String_def)
next
  case False
  define x where "x = SetInt daiBalance"
  define y where "y = SetInt 1"
  define p where "p = max (fl_prec x) (fl_prec y)"
  define a where "a = nat \<bar>daiBalance\<bar>"
  have xs: "fl_mant x = a" "fl_exp x = 0" "fl_form x = form_finite" "fl_neg x = (daiBalance < 0)"
    using False by (simp_all add: x_def a_def SetInt_sel)
  have ys: "fl_mant y = Suc 0" "fl_exp y = 0" "fl_form y = form_finite" "fl_neg y = False"
    by (simp_all add: y_def SetInt_sel)
  have pos: "0 < fl_mant x" using False by (simp add: xs a_def)
  have le: "bitLen (fl_mant x) \<le> p" by (simp add: p_def x_def SetInt_sel)
  have u: "uquo p x y = (a * 2 ^ (p - bitLen a), - int (p - bitLen a))"
    using uquo_one [OF pos le ys(1) xs(2) ys(2)] by (simp add: xs)
  have q: "Quo x y = Inr \<lparr>fl_prec = p, fl_form = form_finite, fl_neg = (daiBalance < 0),
      fl_mant = a * 2 ^ (p - bitLen a), fl_exp = - int (p - bitLen a)\<rparr>"
    by (simp add: Quo_def Let_def p_def [symmetric] u xs ys)
  have "daiBalanceFloat daiBalance 0 = Quo x y"
    by (simp add: daiBalanceFloat_def x_def y_def)
  then show ?thesis
    by (simp add: balanceText_def q Text_f_def Text_scaled Int_String_def a_def)
qed

lemma replicate_18: "replicate 18 (CHR ''0'') = ''000000000000000000''"
  by (simp add: numeral_eq_Suc)

text \<open>
  C4 (as stated). With decimals = 0 the printed text is not the integer alone: for the
  balance 5 it is "5.000000000000000000", and the integer renders as "5".
\<close>

theorem balance_text_decimals_zero_counterexample:
  "balanceText 5 0 = Inr ''5.000000000000000000'' \<and> Int_String 5 = ''5''
   \<and> balanceText 5 0 \<noteq> Inr (Int_String 5)"
  by (simp add: balanceText_decimals_0 Int_String_def eval_simps replicate_18)

text \<open>
  C4 (amended). With decimals = 0 the printed text is the raw integer rendered as a
  string, followed by a decimal point and 18 zeros: the quotient by 1 is exact at the
  precision of the balance, and the format writes 18 fraction digits.
\<close>

theorem balance_text_decimals_zero:
  "balanceText daiBalance 0 = Inr (Int_String daiBalance @ ''.'' @ replicate 18 (CHR ''0''))"
  by (rule balanceText_decimals_0)


subsection \<open>The steps of a run\<close>

lemmas step_defs = config_def connect_def parseABIs_def prepareCalls_def execute_def
lemmas run_defs = fetch_def prepared_def parsed_def dialed_def step_defs

lemma config_Inr:
  "config w = Inr (t, url) \<longleftrightarrow>
     (t = loadLog w \<and> url = os_Getenv w ''MAINNET_RPC_URL'' \<and> url \<noteq> '''')"
  by (auto simp: config_def loadLog_def Let_def)

lemma config_Inl:
  "config w = Inl out \<longleftrightarrow>
     (os_Getenv w ''MAINNET_RPC_URL'' = '''' \<and>
      out = log_Fatal (loadLog w) ''MAINNET_RPC_URL environment variable is required'')"
  by (auto simp: config_def loadLog_def Let_def)

lemma dialed_Inr:
  "dialed w = Inr (t, client) \<longleftrightarrow>
     (os_Getenv w ''MAINNET_RPC_URL'' \<noteq> '''' \<and>
      Dial w (os_Getenv w ''MAINNET_RPC_URL'') = Inr client \<and>
      t = loadLog w @ [DialEv (os_Getenv w ''MAINNET_RPC_URL'')])"
  by (auto simp: dialed_def connect_def config_Inr config_Inl split: sum.splits prod.splits)

lemma parsed_Inr:
  "parsed w = Inr (t, client, mc, dai) \<longleftrightarrow>
     (dialed w = Inr (t, client) \<and> abi_JSON w multicall3ABI = None \<and> abi_JSON w daiABI = None
      \<and> mc = multicall3ABI \<and> dai = daiABI)"
  by (auto simp: parsed_def parseABIs_def split: sum.splits prod.splits option.splits)

lemma prepareCalls_Inr:
  "prepareCalls w t dai = Inr calls \<longleftrightarrow>
     (\<exists>symbolData decimalsData balanceData.
        Pack w dai ''symbol'' [] = Inr symbolData \<and>
        Pack w dai ''decimals'' [] = Inr decimalsData \<and>
        Pack w dai ''balanceOf'' [ArgAddress vitalikAddress] = Inr balanceData \<and>
        calls = [\<lparr>Target = daiAddress, CallData = symbolData\<rparr>,
                 \<lparr>Target = daiAddress, CallData = decimalsData\<rparr>,
                 \<lparr>Target = daiAddress, CallData = balanceData\<rparr>])"
  by (auto simp: prepareCalls_def split: sum.splits)

lemma prepared_Inr:
  "prepared w = Inr (t, client, mc, dai, calls) \<longleftrightarrow>
     (parsed w = Inr (t, client, mc, dai) \<and> prepareCalls w t dai = Inr calls)"
  by (auto simp: prepared_def split: sum.splits prod.splits)

lemma execute_Inr:
  "execute w t client mc calls = Inr (t', res) \<longleftrightarrow>
     (\<exists>multicallData result.
        Pack w mc ''aggregate'' [ArgCalls calls] = Inr multicallData \<and>
        CallContract w client \<lparr>To = Some multicall3Address, Data = multicallData, Value = None\<rparr> None
          = Inr result \<and>
        UnpackAggregateResult w mc ''aggregate'' result = Inr res \<and>
        t' = t @ [CallContractEv client
                    \<lparr>To = Some multicall3Address, Data = multicallData, Value = None\<rparr> None])"
  by (auto simp: execute_def Let_def split: sum.splits)

lemma fetch_Inr:
  "fetch w = Inr (t', client, dai, res) \<longleftrightarrow>
     (\<exists>t mc calls. prepared w = Inr (t, client, mc, dai, calls) \<and>
        execute w t client mc calls = Inr (t', res))"
  by (auto simp: fetch_def split: sum.splits prod.splits)

lemma fatalExit_log_Fatal:
  "filter isPrintf t = [] \<Longrightarrow> filter isClose t = [] \<Longrightarrow> fatalExit (log_Fatal t msg)"
  unfolding fatalExit_def by blast

lemma loadLog_quiet [simp]: "filter isPrintf (loadLog w) = []" "filter isClose (loadLog w) = []"
  by (simp_all add: loadLog_def split: option.splits)

lemma dialed_Inl: "dialed w = Inl out \<Longrightarrow> fatalExit out"
  by (auto simp: dialed_def connect_def config_Inl config_Inr split: sum.splits prod.splits
      intro!: fatalExit_log_Fatal)

lemma parsed_Inl: "parsed w = Inl out \<Longrightarrow> fatalExit out"
  by (auto simp: parsed_def parseABIs_def dialed_Inr split: sum.splits prod.splits option.splits
      dest: dialed_Inl intro!: fatalExit_log_Fatal)

lemma prepared_Inl: "prepared w = Inl out \<Longrightarrow> fatalExit out"
  by (auto simp: prepared_def prepareCalls_def parsed_Inr dialed_Inr split: sum.splits prod.splits
      dest: parsed_Inl intro!: fatalExit_log_Fatal)

lemma fetch_Inl: "fetch w = Inl out \<Longrightarrow> fatalExit out"
  by (auto simp: fetch_def execute_def Let_def prepared_Inr parsed_Inr dialed_Inr
      split: sum.splits prod.splits dest: prepared_Inl intro!: fatalExit_log_Fatal)

lemma fetch_trace:
  "fetch w = Inr (t, client, dai, res) \<Longrightarrow> filter isPrintf t = [] \<and> filter isClose t = []"
  by (auto simp: fetch_Inr execute_Inr prepared_Inr parsed_Inr dialed_Inr)

subsection \<open>The balance text\<close>

lemma daiBalanceFloat_finite:
  "\<exists>f. daiBalanceFloat daiBalance decimals = Inr f \<and> fl_form f \<noteq> form_inf"
  by (simp add: daiBalanceFloat_def Quo_def Let_def SetInt_sel)

lemma Text_f_shape:
  assumes "fl_form f \<noteq> form_inf"
  shows "\<exists>ip fp. Text_f f 18 = ip @ ''.'' @ fp \<and> CHR ''.'' \<notin> set ip \<and> length fp = 18
           \<and> set fp \<subseteq> set ''0123456789''"
proof -
  define r where "r = decimalRound f 18"
  define ip where "ip = (if fl_neg f then ''-'' else '''') @ decimal (r div 10 ^ 18)"
  define fp where "fp = fraction 18 (r mod 10 ^ 18)"
  have "Text_f f 18 = ip @ ''.'' @ fp"
    using assms by (simp add: Text_f_def fmtF_def ip_def fp_def r_def)
  moreover have "CHR ''.'' \<notin> set ip"
    using set_decimal [of "r div 10 ^ 18"] by (auto simp: ip_def)
  moreover have "length fp = 18" by (simp add: fp_def length_fraction)
  moreover have "set fp \<subseteq> set ''0123456789''" unfolding fp_def by (rule set_fraction)
  ultimately show ?thesis by blast
qed

lemma balanceText_shape:
  "\<exists>ip fp. balanceText daiBalance decimals = Inr (ip @ ''.'' @ fp) \<and> CHR ''.'' \<notin> set ip
      \<and> length fp = 18 \<and> set fp \<subseteq> set ''0123456789''"
proof -
  from daiBalanceFloat_finite obtain f
    where f: "daiBalanceFloat daiBalance decimals = Inr f" "fl_form f \<noteq> form_inf" by blast
  from Text_f_shape [OF f(2)] f(1) show ?thesis by (simp add: balanceText_def)
qed

lemma display_events:
  "balanceText daiBalance decimals = Inr balance \<Longrightarrow>
   display t client aggregateResult symbol decimals daiBalance =
     \<lparr>events = t @
        [Printf (''Block Number: '' @ Int_String (BlockNumber aggregateResult) @ newline),
         Printf (''DAI Symbol: '' @ symbol @ newline),
         Printf (''DAI Decimals: '' @ decimal (unat decimals) @ newline),
         Printf (''Vitalik's '' @ symbol @ '' balance: '' @ balance @ newline),
         CloseEv client],
      exit = Return\<rparr>"
  by (simp add: display_def returned_def)

text \<open>
  C9. For every balance and every decimals value the text printed for the balance is
  some text without a point, a decimal point, and exactly 18 decimal digits; the last
  line of the display prints it, whatever the decimals value.
\<close>

theorem printed_balance_has_18_fraction_digits:
  "\<exists>ip fp. balanceText daiBalance decimals = Inr (ip @ ''.'' @ fp) \<and> CHR ''.'' \<notin> set ip
      \<and> length fp = 18 \<and> set fp \<subseteq> set ''0123456789''
      \<and> events (display t client aggregateResult symbol decimals daiBalance) =
          t @ [Printf (''Block Number: '' @ Int_String (BlockNumber aggregateResult) @ newline),
               Printf (''DAI Symbol: '' @ symbol @ newline),
               Printf (''DAI Decimals: '' @ decimal (unat decimals) @ newline),
               Printf (''Vitalik's '' @ symbol @ '' balance: '' @ ip @ ''.'' @ fp @ newline),
               CloseEv client]"
proof -
  from balanceText_shape obtain ip fp
    where s: "balanceText daiBalance decimals = Inr (ip @ ''.'' @ fp)" "CHR ''.'' \<notin> set ip"
      "length fp = 18" "set fp \<subseteq> set ''0123456789''" by blast
  from display_events [OF s(1)] s show ?thesis by (intro exI [of _ ip] exI [of _ fp]) simp
qed

subsection \<open>The decoded results and the display\<close>

lemma display_Return:
  "exit (display t client aggregateResult symbol decimals daiBalance) = Return"
  using balanceText_shape [of daiBalance decimals] by (auto simp: display_events)

lemma unpackResults_Inr:
  "unpackResults w t client dai res = Inr (symbol, decimals, daiBalance) \<longleftrightarrow>
     (2 < length (ReturnData res) \<and>
      UnpackString w dai ''symbol'' (ReturnData res ! 0) = Inr symbol \<and>
      UnpackUint8 w dai ''decimals'' (ReturnData res ! 1) = Inr decimals \<and>
      UnpackBigInt w dai ''balanceOf'' (ReturnData res ! 2) = Inr daiBalance)"
  by (auto simp: unpackResults_def index_def split: sum.splits)

lemma main_fetch_Inl: "fetch w = Inl out \<Longrightarrow> main w = out"
  by (simp add: main_def)

lemma main_fetch_Inr:
  "fetch w = Inr (t, client, dai, res) \<Longrightarrow>
   main w = (case unpackResults w t client dai res of Inl out \<Rightarrow> out
             | Inr (symbol, decimals, daiBalance) \<Rightarrow> display t client res symbol decimals daiBalance)"
  by (simp add: main_def)

lemma fatal_log_Fatal: "filter isPrintf t = [] \<Longrightarrow> fatal (log_Fatal t msg) msg"
  by (simp add: fatal_def log_Fatal_def noOutput_def)

lemma fatalExit_fatal: "fatalExit out \<Longrightarrow> \<exists>msg. fatal out msg"
  by (auto simp: fatalExit_def intro: fatal_log_Fatal)

lemma main_Return:
  assumes "exit (main w) = Return"
  shows "\<exists>t client dai res symbol decimals daiBalance.
           fetch w = Inr (t, client, dai, res) \<and>
           unpackResults w t client dai res = Inr (symbol, decimals, daiBalance) \<and>
           main w = display t client res symbol decimals daiBalance"
proof (cases "fetch w")
  case (Inl out)
  with fetch_Inl [OF Inl] assms show ?thesis
    by (auto simp: main_fetch_Inl fatalExit_def log_Fatal_def)
next
  case (Inr r)
  obtain t client dai res where r: "r = (t, client, dai, res)" by (cases r) auto
  show ?thesis
  proof (cases "unpackResults w t client dai res")
    case (Inl out)
    then have "exit out \<noteq> Return"
      by (auto simp: unpackResults_def index_def log_Fatal_def panicked_def split: sum.splits if_splits)
    with assms Inr r Inl show ?thesis by (simp add: main_fetch_Inr)
  next
    case (Inr v)
    obtain symbol decimals daiBalance where "v = (symbol, decimals, daiBalance)" by (cases v) auto
    with Inr \<open>fetch w = Inr r\<close> r show ?thesis by (auto simp: main_fetch_Inr)
  qed
qed

subsection \<open>The missing configuration value\<close>

lemma os_Getenv_absent:
  assumes "environ w key = None" and "\<forall>file. dotenv w = Inr file \<longrightarrow> file key = None"
  shows "os_Getenv w key = ''''"
  using assms by (auto simp: os_Getenv_def loaded_environ_def map_add_def split: sum.splits option.splits)

text \<open>
  C5. If the variable MAINNET_RPC_URL is absent from the process environment and from
  the .env file (or there is no such file), the run ends in the fatal exit of the
  configuration step, with status 1, and no event of the run is a network event: no
  Dial and no CallContract.
\<close>

theorem missing_url_is_fatal:
  assumes "environ w ''MAINNET_RPC_URL'' = None"
      and "\<forall>file. dotenv w = Inr file \<longrightarrow> file ''MAINNET_RPC_URL'' = None"
  shows "fatal (main w) ''MAINNET_RPC_URL environment variable is required''
         \<and> exit_status (exit (main w)) \<noteq> 0
         \<and> filter isNetwork (events (main w)) = []"
proof -
  have "os_Getenv w ''MAINNET_RPC_URL'' = ''''" using assms by (rule os_Getenv_absent)
  then have "config w = Inl (log_Fatal (loadLog w) ''MAINNET_RPC_URL environment variable is required'')"
    by (simp add: config_Inl)
  then have m: "main w = log_Fatal (loadLog w) ''MAINNET_RPC_URL environment variable is required''"
    by (simp add: main_def run_defs)
  have "filter isNetwork (loadLog w) = []" by (simp add: loadLog_def split: option.splits)
  then show ?thesis
    unfolding m by (simp add: fatal_log_Fatal) (simp add: log_Fatal_def exit_status_def)
qed

text \<open>C5 in a world with a \<^verbatim>\<open>.env\<close> file that does not define the variable.\<close>

theorem missing_url_is_fatal_witness:
  "environ noURLFileWorld ''MAINNET_RPC_URL'' = None
   \<and> dotenv noURLFileWorld = Inr [''OTHER_KEY'' \<mapsto> ''1'']
   \<and> fatal (main noURLFileWorld) ''MAINNET_RPC_URL environment variable is required''
   \<and> exit_status (exit (main noURLFileWorld)) \<noteq> 0
   \<and> filter isNetwork (events (main noURLFileWorld)) = []"
  using missing_url_is_fatal [of noURLFileWorld] by (simp add: noURLFileWorld_def okWorld_def)

subsection \<open>The submitted batch\<close>

text \<open>
  C10. In every run that completes, the batch is the three calls on the DAI address with
  the packed symbol(), decimals() and balanceOf(vitalikAddress) in that order, and the
  only CallContract of the run sends its packed form to the Multicall3 address, with no
  value and the nil block number.
\<close>

theorem submitted_batch_is_fixed:
  assumes "exit (main w) = Return"
  shows "\<exists>client symbolData decimalsData balanceData multicallData.
      Pack w daiABI ''symbol'' [] = Inr symbolData \<and>
      Pack w daiABI ''decimals'' [] = Inr decimalsData \<and>
      Pack w daiABI ''balanceOf'' [ArgAddress vitalikAddress] = Inr balanceData \<and>
      Pack w multicall3ABI ''aggregate''
        [ArgCalls [\<lparr>Target = daiAddress, CallData = symbolData\<rparr>,
                   \<lparr>Target = daiAddress, CallData = decimalsData\<rparr>,
                   \<lparr>Target = daiAddress, CallData = balanceData\<rparr>]] = Inr multicallData \<and>
      filter isCallContract (events (main w)) =
        [CallContractEv client
           \<lparr>To = Some multicall3Address, Data = multicallData, Value = None\<rparr> None]"
proof -
  from main_Return [OF assms] obtain t client dai res symbol decimals daiBalance
    where f: "fetch w = Inr (t, client, dai, res)"
      and m: "main w = display t client res symbol decimals daiBalance" by blast
  from balanceText_shape obtain str where "balanceText daiBalance decimals = Inr str" by blast
  from display_events [OF this] m
  have ev: "filter isCallContract (events (main w)) = filter isCallContract t" by simp
  from f show ?thesis
    unfolding ev
    by (auto simp: fetch_Inr execute_Inr prepared_Inr prepareCalls_Inr parsed_Inr dialed_Inr
        loadLog_def split: option.splits)
qed

lemma main_okWorld:
  "main okWorld =
     \<lparr>events =
        [LogPrint ''No .env file found, using system environment variables'',
         DialEv ''http://localhost:8545'',
         CallContractEv 7
           \<lparr>To = Some multicall3Address, Data = [0x25, 0x2d, 0xba, 0x42], Value = None\<rparr> None,
         Printf (''Block Number: 12345678'' @ newline),
         Printf (''DAI Symbol: DAI'' @ newline),
         Printf (''DAI Decimals: 18'' @ newline),
         Printf (''Vitalik's DAI balance: 1.234567890123456789'' @ newline),
         CloseEv 7],
      exit = Return\<rparr>"
  by (simp add: main_def run_defs unpackResults_def display_def index_def okWorld_def
      okResult_def godotenv_Load_def os_Getenv_def loaded_environ_def selector_def returned_def
      balanceText_example Int_String_def eval_simps)

text \<open>C10 in the world in which every step succeeds.\<close>

theorem submitted_batch_is_fixed_witness:
  "exit (main okWorld) = Return \<and>
   (\<exists>client symbolData decimalsData balanceData multicallData.
      Pack okWorld daiABI ''symbol'' [] = Inr symbolData \<and>
      Pack okWorld daiABI ''decimals'' [] = Inr decimalsData \<and>
      Pack okWorld daiABI ''balanceOf'' [ArgAddress vitalikAddress] = Inr balanceData \<and>
      Pack okWorld multicall3ABI ''aggregate''
        [ArgCalls [\<lparr>Target = daiAddress, CallData = symbolData\<rparr>,
                   \<lparr>Target = daiAddress, CallData = decimalsData\<rparr>,
                   \<lparr>Target = daiAddress, CallData = balanceData\<rparr>]] = Inr multicallData \<and>
      filter isCallContract (events (main okWorld)) =
        [CallContractEv client
           \<lparr>To = Some multicall3Address, Data = multicallData, Value = None\<rparr> None])"
proof -
  have r: "exit (main okWorld) = Return" by (simp add: main_okWorld)
  from submitted_batch_is_fixed [OF r] r show ?thesis by blast
qed

subsection \<open>Short return data\<close>

lemma unpackResults_short:
  assumes "length (ReturnData res) < 3"
  shows "unpackResults w t client dai res =
     (if (0 < length (ReturnData res) \<longrightarrow>
            (\<exists>symbol. UnpackString w dai ''symbol'' (ReturnData res ! 0) = Inr symbol)) \<and>
         (1 < length (ReturnData res) \<longrightarrow>
            (\<exists>decimals. UnpackUint8 w dai ''decimals'' (ReturnData res ! 1) = Inr decimals))
      then Inl (panicked t client
                 (IndexOutOfRange (length (ReturnData res)) (length (ReturnData res))))
      else Inl (log_Fatal t
                 (case UnpackString w dai ''symbol'' (ReturnData res ! 0) of
                    Inl err \<Rightarrow> ''Failed to unpack symbol: '' @ err
                  | Inr symbol \<Rightarrow>
                      (case UnpackUint8 w dai ''decimals'' (ReturnData res ! 1) of
                         Inl err \<Rightarrow> ''Failed to unpack decimals: '' @ err
                       | Inr decimals \<Rightarrow> ''''))))"
proof -
  consider "length (ReturnData res) = 0" | "length (ReturnData res) = 1" | "length (ReturnData res) = 2"
    using assms by linarith
  then show ?thesis
  proof cases
    case 1
    then show ?thesis by (simp add: unpackResults_def index_def)
  next
    case 2
    then show ?thesis by (auto simp: unpackResults_def index_def split: sum.splits)
  next
    case 3
    then show ?thesis by (auto simp: unpackResults_def index_def split: sum.splits)
  qed
qed

lemma unpackResults_no_panic:
  "2 < length (ReturnData res) \<Longrightarrow> unpackResults w t client dai res \<noteq> Inl (panicked t' client' p)"
  by (auto simp: unpackResults_def index_def panicked_def log_Fatal_def split: sum.splits)

text \<open>
  C8 (amended). The accesses at the indices 0, 1 and 2 are unguarded. For a decoded
  response with fewer than three entries the run prints nothing and never completes: it
  ends in the index-out-of-range panic, at the index equal to the length and after the
  deferred Close, exactly when the entries that are present decode (entry 0 as the
  symbol, entry 1 as the decimals), and otherwise in the fatal exit of the decode that
  failed. With three entries or more the run does not panic.
\<close>

theorem short_return_data:
  assumes "fetch w = Inr (t, client, dai, res)"
  shows "((\<exists>p. exit (main w) = Panic p) \<longleftrightarrow>
            (length (ReturnData res) < 3 \<and>
             (0 < length (ReturnData res) \<longrightarrow>
                (\<exists>symbol. UnpackString w dai ''symbol'' (ReturnData res ! 0) = Inr symbol)) \<and>
             (1 < length (ReturnData res) \<longrightarrow>
                (\<exists>decimals. UnpackUint8 w dai ''decimals'' (ReturnData res ! 1) = Inr decimals))))
       \<and> (\<forall>p. exit (main w) = Panic p \<longrightarrow>
             p = IndexOutOfRange (length (ReturnData res)) (length (ReturnData res)) \<and>
             events (main w) = t @ [CloseEv client])
       \<and> (length (ReturnData res) < 3 \<longrightarrow>
             noOutput (main w) \<and>
             (exit (main w) = Panic (IndexOutOfRange (length (ReturnData res)) (length (ReturnData res)))
              \<or> exit (main w) = os_Exit 1))"
proof (cases "length (ReturnData res) < 3")
  case True
  from fetch_trace [OF assms] have q: "filter isPrintf t = []" by simp
  show ?thesis
    using True q
    by (simp add: main_fetch_Inr [OF assms] unpackResults_short [OF True] panicked_def
        log_Fatal_def noOutput_def)
next
  case False
  then have l: "2 < length (ReturnData res)" by simp
  have "\<not> (\<exists>p. exit (main w) = Panic p)"
    using l
    by (auto simp: main_fetch_Inr [OF assms] unpackResults_def index_def log_Fatal_def
        display_Return split: sum.splits)
  with False show ?thesis by simp
qed

lemma fetch_emptyWorld:
  "fetch emptyWorld =
     Inr ([LogPrint ''No .env file found, using system environment variables'',
           DialEv ''http://localhost:8545'',
           CallContractEv 7
             \<lparr>To = Some multicall3Address, Data = [0x25, 0x2d, 0xba, 0x42], Value = None\<rparr> None],
          7, daiABI, \<lparr>BlockNumber = 12345678, ReturnData = []\<rparr>)"
  by (simp add: run_defs emptyWorld_def okWorld_def godotenv_Load_def os_Getenv_def
      loaded_environ_def selector_def)

text \<open>C8 in the world whose node answers with no entry: the panic at index 0.\<close>

theorem short_return_data_witness:
  "exit (main emptyWorld) = Panic (IndexOutOfRange 0 0) \<and>
   events (main emptyWorld) =
     [LogPrint ''No .env file found, using system environment variables'',
      DialEv ''http://localhost:8545'',
      CallContractEv 7
        \<lparr>To = Some multicall3Address, Data = [0x25, 0x2d, 0xba, 0x42], Value = None\<rparr> None,
      CloseEv 7]"
  using short_return_data [OF fetch_emptyWorld] by auto

lemma fetch_shortWorld:
  "fetch shortWorld =
     Inr ([LogPrint ''No .env file found, using system environment variables'',
           DialEv ''http://localhost:8545'',
           CallContractEv 7
             \<lparr>To = Some multicall3Address, Data = [0x25, 0x2d, 0xba, 0x42], Value = None\<rparr> None],
          7, daiABI, \<lparr>BlockNumber = 12345678, ReturnData = [[9]]\<rparr>)"
  by (simp add: run_defs shortWorld_def okWorld_def godotenv_Load_def os_Getenv_def
      loaded_environ_def selector_def)

text \<open>
  C8 (as stated). A decoded response with fewer than three entries does not always end
  in the panic: with the single entry \<open>[9]\<close>, which does not decode as a string, the
  run leaves through the error-logging exit of the symbol decode, before any index is
  out of range.
\<close>

theorem short_return_data_counterexample:
  "fetch shortWorld =
     Inr ([LogPrint ''No .env file found, using system environment variables'',
           DialEv ''http://localhost:8545'',
           CallContractEv 7
             \<lparr>To = Some multicall3Address, Data = [0x25, 0x2d, 0xba, 0x42], Value = None\<rparr> None],
          7, daiABI, \<lparr>BlockNumber = 12345678, ReturnData = [[9]]\<rparr>)
   \<and> length (ReturnData \<lparr>BlockNumber = 12345678, ReturnData = [[9]]\<rparr>) < 3
   \<and> exit (main shortWorld) = os_Exit 1
   \<and> last (events (main shortWorld)) = LogPrint ''Failed to unpack symbol: abi: cannot unmarshal''"
proof -
  have "UnpackString shortWorld daiABI ''symbol'' [9] = Inl ''abi: cannot unmarshal''"
    by (simp add: shortWorld_def okWorld_def)
  then show ?thesis
    by (simp add: fetch_shortWorld main_fetch_Inr [OF fetch_shortWorld] unpackResults_def index_def
        log_Fatal_def)
qed

subsection \<open>The connection on a fatal exit\<close>

lemma main_revertWorld:
  "main revertWorld =
     \<lparr>events =
        [LogPrint ''No .env file found, using system environment variables'',
         DialEv ''http://localhost:8545'',
         CallContractEv 7
           \<lparr>To = Some multicall3Address, Data = [0x25, 0x2d, 0xba, 0x42], Value = None\<rparr> None,
         LogPrint ''Failed to execute multicall: execution reverted''],
      exit = os_Exit 1\<rparr>"
  by (simp add: main_def run_defs revertWorld_def okWorld_def godotenv_Load_def os_Getenv_def
      loaded_environ_def selector_def log_Fatal_def)

text \<open>
  C7 (the code at the failing input). The connection is opened, the node reverts the
  aggregated call, and the run ends in \<^verbatim>\<open>log.Fatalf\<close>: the exit status is 1 and no
  Close is among the events, since \<^verbatim>\<open>os.Exit\<close> does not run the deferred call.
\<close>

theorem fatal_exit_leaves_connection_open:
  "dialed revertWorld =
     Inr ([LogPrint ''No .env file found, using system environment variables'',
           DialEv ''http://localhost:8545''], 7)
   \<and> exit (main revertWorld) = os_Exit 1
   \<and> filter isClose (events (main revertWorld)) = []"
  by (simp add: main_revertWorld)
     (simp add: dialed_def config_def connect_def revertWorld_def okWorld_def godotenv_Load_def
        os_Getenv_def loaded_environ_def)

text \<open>
  In general: once the connection is open, the deferred Close runs exactly in the runs
  that do not end in the fatal exit.
\<close>

lemma main_Inl_fatalExit: "fetch w = Inl out \<Longrightarrow> fatalExit (main w)"
  by (simp add: main_fetch_Inl fetch_Inl)

lemma close_iff_not_os_Exit:
  assumes "dialed w = Inr (t, client)"
  shows "filter isClose (events (main w)) = (if exit (main w) = os_Exit 1 then [] else [CloseEv client])"
proof (cases "fetch w")
  case (Inl out)
  from fetch_Inl [OF Inl] show ?thesis
    by (auto simp: main_fetch_Inl [OF Inl] fatalExit_def log_Fatal_def)
next
  case (Inr r)
  obtain t' client' dai res where r: "r = (t', client', dai, res)" by (cases r) auto
  from Inr r have f: "fetch w = Inr (t', client', dai, res)" by simp
  from f assms have c: "client' = client"
    by (auto simp: fetch_Inr prepared_Inr parsed_Inr)
  from fetch_trace [OF f] have q: "filter isClose t' = []" by simp
  show ?thesis
    using q c balanceText_shape
    by (auto simp: main_fetch_Inr [OF f] unpackResults_def index_def log_Fatal_def panicked_def
        display_def returned_def split: sum.splits)
qed

subsection \<open>The errors of the steps\<close>

lemma main_config_Inl: "config w = Inl out \<Longrightarrow> main w = out"
  by (simp add: main_def fetch_def prepared_def parsed_def dialed_def)

lemma main_dialed_Inl: "dialed w = Inl out \<Longrightarrow> main w = out"
  by (simp add: main_def fetch_def prepared_def parsed_def)

lemma main_parsed_Inl: "parsed w = Inl out \<Longrightarrow> main w = out"
  by (simp add: main_def fetch_def prepared_def)

lemma main_prepared_Inl: "prepared w = Inl out \<Longrightarrow> main w = out"
  by (simp add: main_def fetch_def)

lemma dialed_trace: "dialed w = Inr (t, client) \<Longrightarrow> filter isPrintf t = []"
  by (auto simp: dialed_Inr)

lemma parsed_trace: "parsed w = Inr (t, client, mc, dai) \<Longrightarrow> filter isPrintf t = []"
  by (auto simp: parsed_Inr dialed_Inr)

lemma prepared_trace: "prepared w = Inr (t, client, mc, dai, calls) \<Longrightarrow> filter isPrintf t = []"
  by (auto simp: prepared_Inr parsed_Inr dialed_Inr)

lemma fatal_config:
  assumes "os_Getenv w ''MAINNET_RPC_URL'' = ''''"
  shows "fatal (main w) ''MAINNET_RPC_URL environment variable is required''"
proof -
  have "config w = Inl (log_Fatal (loadLog w) ''MAINNET_RPC_URL environment variable is required'')"
    using assms by (simp add: config_Inl)
  then show ?thesis by (simp add: main_config_Inl fatal_log_Fatal)
qed

lemma fatal_connect:
  assumes "config w = Inr (t, rpcURL)" "Dial w rpcURL = Inl err"
  shows "fatal (main w) (''Failed to connect to the Ethereum client: '' @ err)"
proof -
  have "dialed w = Inl (log_Fatal (t @ [DialEv rpcURL])
      (''Failed to connect to the Ethereum client: '' @ err))"
    using assms by (simp add: dialed_def connect_def)
  moreover have "filter isPrintf (t @ [DialEv rpcURL]) = []"
    using assms(1) by (simp add: config_Inr)
  ultimately show ?thesis by (simp add: main_dialed_Inl fatal_log_Fatal)
qed

lemma fatal_parse_multicall:
  assumes "dialed w = Inr (t, client)" "abi_JSON w multicall3ABI = Some err"
  shows "fatal (main w) (''Failed to parse Multicall3 ABI: '' @ err)"
proof -
  have "parsed w = Inl (log_Fatal t (''Failed to parse Multicall3 ABI: '' @ err))"
    using assms by (simp add: parsed_def parseABIs_def)
  with dialed_trace [OF assms(1)] show ?thesis by (simp add: main_parsed_Inl fatal_log_Fatal)
qed

lemma fatal_parse_dai:
  assumes "dialed w = Inr (t, client)" "abi_JSON w multicall3ABI = None"
    "abi_JSON w daiABI = Some err"
  shows "fatal (main w) (''Failed to parse DAI ABI: '' @ err)"
proof -
  have "parsed w = Inl (log_Fatal t (''Failed to parse DAI ABI: '' @ err))"
    using assms by (simp add: parsed_def parseABIs_def)
  with dialed_trace [OF assms(1)] show ?thesis by (simp add: main_parsed_Inl fatal_log_Fatal)
qed

lemma fatal_pack_symbol:
  assumes "parsed w = Inr (t, client, mc, dai)" "Pack w dai ''symbol'' [] = Inl err"
  shows "fatal (main w) (''Failed to pack symbol call: '' @ err)"
proof -
  have "prepared w = Inl (log_Fatal t (''Failed to pack symbol call: '' @ err))"
    using assms by (simp add: prepared_def prepareCalls_def)
  with parsed_trace [OF assms(1)] show ?thesis by (simp add: main_prepared_Inl fatal_log_Fatal)
qed

lemma fatal_pack_decimals:
  assumes "parsed w = Inr (t, client, mc, dai)" "Pack w dai ''symbol'' [] = Inr symbolData"
    "Pack w dai ''decimals'' [] = Inl err"
  shows "fatal (main w) (''Failed to pack decimals call: '' @ err)"
proof -
  have "prepared w = Inl (log_Fatal t (''Failed to pack decimals call: '' @ err))"
    using assms by (simp add: prepared_def prepareCalls_def)
  with parsed_trace [OF assms(1)] show ?thesis by (simp add: main_prepared_Inl fatal_log_Fatal)
qed

lemma fatal_pack_balanceOf:
  assumes "parsed w = Inr (t, client, mc, dai)" "Pack w dai ''symbol'' [] = Inr symbolData"
    "Pack w dai ''decimals'' [] = Inr decimalsData"
    "Pack w dai ''balanceOf'' [ArgAddress vitalikAddress] = Inl err"
  shows "fatal (main w) (''Failed to pack balanceOf call: '' @ err)"
proof -
  have "prepared w = Inl (log_Fatal t (''Failed to pack balanceOf call: '' @ err))"
    using assms by (simp add: prepared_def prepareCalls_def)
  with parsed_trace [OF assms(1)] show ?thesis by (simp add: main_prepared_Inl fatal_log_Fatal)
qed

lemma fatal_pack_multicall:
  assumes "prepared w = Inr (t, client, mc, dai, calls)"
    "Pack w mc ''aggregate'' [ArgCalls calls] = Inl err"
  shows "fatal (main w) (''Failed to pack multicall: '' @ err)"
proof -
  have "fetch w = Inl (log_Fatal t (''Failed to pack multicall: '' @ err))"
    using assms by (simp add: fetch_def execute_def)
  with prepared_trace [OF assms(1)] show ?thesis by (simp add: main_fetch_Inl fatal_log_Fatal)
qed

lemma fatal_execute:
  assumes "prepared w = Inr (t, client, mc, dai, calls)"
    "Pack w mc ''aggregate'' [ArgCalls calls] = Inr multicallData"
    "CallContract w client \<lparr>To = Some multicall3Address, Data = multicallData, Value = None\<rparr> None
       = Inl err"
  shows "fatal (main w) (''Failed to execute multicall: '' @ err)"
proof -
  have "fetch w = Inl (log_Fatal
      (t @ [CallContractEv client
              \<lparr>To = Some multicall3Address, Data = multicallData, Value = None\<rparr> None])
      (''Failed to execute multicall: '' @ err))"
    using assms by (simp add: fetch_def execute_def)
  with prepared_trace [OF assms(1)] show ?thesis by (simp add: main_fetch_Inl fatal_log_Fatal)
qed

lemma fatal_unpack_multicall:
  assumes "prepared w = Inr (t, client, mc, dai, calls)"
    "Pack w mc ''aggregate'' [ArgCalls calls] = Inr multicallData"
    "CallContract w client \<lparr>To = Some multicall3Address, Data = multicallData, Value = None\<rparr> None
       = Inr result"
    "UnpackAggregateResult w mc ''aggregate'' result = Inl err"
  shows "fatal (main w) (''Failed to unpack multicall result: '' @ err)"
proof -
  have "fetch w = Inl (log_Fatal
      (t @ [CallContractEv client
              \<lparr>To = Some multicall3Address, Data = multicallData, Value = None\<rparr> None])
      (''Failed to unpack multicall result: '' @ err))"
    using assms by (simp add: fetch_def execute_def)
  with prepared_trace [OF assms(1)] show ?thesis by (simp add: main_fetch_Inl fatal_log_Fatal)
qed

lemma fatal_unpack_symbol:
  assumes "fetch w = Inr (t, client, dai, res)" "0 < length (ReturnData res)"
    "UnpackString w dai ''symbol'' (ReturnData res ! 0) = Inl err"
  shows "fatal (main w) (''Failed to unpack symbol: '' @ err)"
  using assms fetch_trace [OF assms(1)]
  by (auto simp: main_fetch_Inr unpackResults_def index_def fatal_log_Fatal)

lemma fatal_unpack_decimals:
  assumes "fetch w = Inr (t, client, dai, res)" "1 < length (ReturnData res)"
    "UnpackString w dai ''symbol'' (ReturnData res ! 0) = Inr symbol"
    "UnpackUint8 w dai ''decimals'' (ReturnData res ! 1) = Inl err"
  shows "fatal (main w) (''Failed to unpack decimals: '' @ err)"
  using assms fetch_trace [OF assms(1)]
  by (auto simp: main_fetch_Inr unpackResults_def index_def fatal_log_Fatal)

lemma fatal_unpack_balance:
  assumes "fetch w = Inr (t, client, dai, res)" "2 < length (ReturnData res)"
    "UnpackString w dai ''symbol'' (ReturnData res ! 0) = Inr symbol"
    "UnpackUint8 w dai ''decimals'' (ReturnData res ! 1) = Inr decimals"
    "UnpackBigInt w dai ''balanceOf'' (ReturnData res ! 2) = Inl err"
  shows "fatal (main w) (''Failed to unpack balance: '' @ err)"
  using assms fetch_trace [OF assms(1)]
  by (auto simp: main_fetch_Inr unpackResults_def index_def fatal_log_Fatal)

lemma logFirst_simps [simp]:
  "logFirst x (log_Fatal t msg) = log_Fatal (x # t) msg"
  "logFirst x (panicked t client p) = panicked (x # t) client p"
  "logFirst x (returned t client) = returned (x # t) client"
  by (simp_all add: logFirst_def log_Fatal_def panicked_def returned_def)

lemma connect_Cons:
  "connect w (x # t) url =
     (case connect w t url of Inl out \<Rightarrow> Inl (logFirst x out) | Inr (t', c) \<Rightarrow> Inr (x # t', c))"
  by (simp add: connect_def split: sum.splits)

lemma parseABIs_Cons:
  "parseABIs w (x # t) =
     (case parseABIs w t of Inl out \<Rightarrow> Inl (logFirst x out) | Inr r \<Rightarrow> Inr r)"
  by (simp add: parseABIs_def split: option.splits)

lemma prepareCalls_Cons:
  "prepareCalls w (x # t) dai =
     (case prepareCalls w t dai of Inl out \<Rightarrow> Inl (logFirst x out) | Inr r \<Rightarrow> Inr r)"
  by (simp add: prepareCalls_def split: sum.splits)

lemma execute_Cons:
  "execute w (x # t) client mc calls =
     (case execute w t client mc calls of Inl out \<Rightarrow> Inl (logFirst x out)
      | Inr (t', res) \<Rightarrow> Inr (x # t', res))"
  by (simp add: execute_def Let_def split: sum.splits)

lemma unpackResults_Cons:
  "unpackResults w (x # t) client dai res =
     (case unpackResults w t client dai res of Inl out \<Rightarrow> Inl (logFirst x out) | Inr r \<Rightarrow> Inr r)"
  by (simp add: unpackResults_def split: sum.splits)

lemma display_Cons:
  "display (x # t) client res symbol decimals daiBalance =
     logFirst x (display t client res symbol decimals daiBalance)"
  by (simp add: display_def split: sum.splits)

lemma steps_dotenv [simp]:
  "connect (w\<lparr>dotenv := d\<rparr>) = connect w"
  "parseABIs (w\<lparr>dotenv := d\<rparr>) = parseABIs w"
  "prepareCalls (w\<lparr>dotenv := d\<rparr>) = prepareCalls w"
  "execute (w\<lparr>dotenv := d\<rparr>) = execute w"
  "unpackResults (w\<lparr>dotenv := d\<rparr>) = unpackResults w"
  by (simp_all add: connect_def parseABIs_def prepareCalls_def execute_def unpackResults_def
      fun_eq_iff Let_def split: sum.splits option.splits)

lemma main_dotenv_error:
  assumes "godotenv_Load w = Some err"
  shows "main w =
     logFirst (LogPrint ''No .env file found, using system environment variables'')
       (main (w\<lparr>dotenv := Inr Map.empty\<rparr>))"
proof -
  define w' where "w' = w\<lparr>dotenv := Inr Map.empty\<rparr>"
  define x where "x = LogPrint ''No .env file found, using system environment variables''"
  from assms obtain e where e: "dotenv w = Inl e"
    by (auto simp: godotenv_Load_def split: sum.splits)
  have g: "os_Getenv w' ''MAINNET_RPC_URL'' = os_Getenv w ''MAINNET_RPC_URL''"
    by (simp add: w'_def os_Getenv_def loaded_environ_def e)
  have c: "config w = (case config w' of Inl out \<Rightarrow> Inl (logFirst x out)
                       | Inr (t, url) \<Rightarrow> Inr (x # t, url))"
    using g by (simp add: config_def Let_def godotenv_Load_def e w'_def x_def)
  have 1: "dialed w = (case dialed w' of Inl out \<Rightarrow> Inl (logFirst x out)
                          | Inr (t, client) \<Rightarrow> Inr (x # t, client))"
    unfolding dialed_def c
    by (simp add: connect_Cons w'_def split: sum.splits prod.splits)
  have 2: "parsed w = (case parsed w' of Inl out \<Rightarrow> Inl (logFirst x out)
                       | Inr (t, r) \<Rightarrow> Inr (x # t, r))"
    unfolding parsed_def 1
    by (simp add: parseABIs_Cons w'_def split: sum.splits prod.splits)
  have 3: "prepared w = (case prepared w' of Inl out \<Rightarrow> Inl (logFirst x out)
                       | Inr (t, r) \<Rightarrow> Inr (x # t, r))"
    unfolding prepared_def 2
    by (simp add: prepareCalls_Cons w'_def split: sum.splits prod.splits)
  have 4: "fetch w = (case fetch w' of Inl out \<Rightarrow> Inl (logFirst x out)
                       | Inr (t, r) \<Rightarrow> Inr (x # t, r))"
    unfolding fetch_def 3
    by (simp add: execute_Cons w'_def split: sum.splits prod.splits)
  have "main w = logFirst x (main w')"
    unfolding main_def 4
    by (simp add: unpackResults_Cons display_Cons w'_def split: sum.splits prod.splits)
  then show ?thesis by (simp add: w'_def x_def)
qed

lemma dotenv_error_continues:
  assumes "godotenv_Load w = Some err"
  shows "events (main w) =
           LogPrint ''No .env file found, using system environment variables''
             # events (main (w\<lparr>dotenv := Inr Map.empty\<rparr>))"
    and "exit (main w) = exit (main (w\<lparr>dotenv := Inr Map.empty\<rparr>))"
  by (simp_all add: main_dotenv_error [OF assms] logFirst_def)

text \<open>
  C6 (amended). Every error of a step after the load of the \<^verbatim>\<open>.env\<close> file is fatal:
  when the step is reached and returns an error, the run ends with status 1, the last
  thing logged is the message of that step with the error, and nothing is printed; in
  particular so when the aggregated call fails. An error of the load itself is logged
  and the run goes on as with an empty file.
\<close>

theorem step_errors_are_fatal:
  "(os_Getenv w ''MAINNET_RPC_URL'' = '''' \<longrightarrow>
      fatal (main w) ''MAINNET_RPC_URL environment variable is required'')
   \<and> (\<forall>t rpcURL err. config w = Inr (t, rpcURL) \<and> Dial w rpcURL = Inl err \<longrightarrow>
      fatal (main w) (''Failed to connect to the Ethereum client: '' @ err))
   \<and> (\<forall>t client err. dialed w = Inr (t, client) \<and> abi_JSON w multicall3ABI = Some err \<longrightarrow>
      fatal (main w) (''Failed to parse Multicall3 ABI: '' @ err))
   \<and> (\<forall>t client err. dialed w = Inr (t, client) \<and> abi_JSON w multicall3ABI = None \<and>
        abi_JSON w daiABI = Some err \<longrightarrow>
      fatal (main w) (''Failed to parse DAI ABI: '' @ err))
   \<and> (\<forall>t client mc dai err. parsed w = Inr (t, client, mc, dai) \<and>
        Pack w dai ''symbol'' [] = Inl err \<longrightarrow>
      fatal (main w) (''Failed to pack symbol call: '' @ err))
   \<and> (\<forall>t client mc dai symbolData err. parsed w = Inr (t, client, mc, dai) \<and>
        Pack w dai ''symbol'' [] = Inr symbolData \<and> Pack w dai ''decimals'' [] = Inl err \<longrightarrow>
      fatal (main w) (''Failed to pack decimals call: '' @ err))
   \<and> (\<forall>t client mc dai symbolData decimalsData err. parsed w = Inr (t, client, mc, dai) \<and>
        Pack w dai ''symbol'' [] = Inr symbolData \<and> Pack w dai ''decimals'' [] = Inr decimalsData \<and>
        Pack w dai ''balanceOf'' [ArgAddress vitalikAddress] = Inl err \<longrightarrow>
      fatal (main w) (''Failed to pack balanceOf call: '' @ err))
   \<and> (\<forall>t client mc dai calls err. prepared w = Inr (t, client, mc, dai, calls) \<and>
        Pack w mc ''aggregate'' [ArgCalls calls] = Inl err \<longrightarrow>
      fatal (main w) (''Failed to pack multicall: '' @ err))
   \<and> (\<forall>t client mc dai calls multicallData err. prepared w = Inr (t, client, mc, dai, calls) \<and>
        Pack w mc ''aggregate'' [ArgCalls calls] = Inr multicallData \<and>
        CallContract w client
          \<lparr>To = Some multicall3Address, Data = multicallData, Value = None\<rparr> None = Inl err \<longrightarrow>
      fatal (main w) (''Failed to execute multicall: '' @ err))
   \<and> (\<forall>t client mc dai calls multicallData result err.
        prepared w = Inr (t, client, mc, dai, calls) \<and>
        Pack w mc ''aggregate'' [ArgCalls calls] = Inr multicallData \<and>
        CallContract w client
          \<lparr>To = Some multicall3Address, Data = multicallData, Value = None\<rparr> None = Inr result \<and>
        UnpackAggregateResult w mc ''aggregate'' result = Inl err \<longrightarrow>
      fatal (main w) (''Failed to unpack multicall result: '' @ err))
   \<and> (\<forall>t client dai res err. fetch w = Inr (t, client, dai, res) \<and>
        0 < length (ReturnData res) \<and>
        UnpackString w dai ''symbol'' (ReturnData res ! 0) = Inl err \<longrightarrow>
      fatal (main w) (''Failed to unpack symbol: '' @ err))
   \<and> (\<forall>t client dai res symbol err. fetch w = Inr (t, client, dai, res) \<and>
        1 < length (ReturnData res) \<and>
        UnpackString w dai ''symbol'' (ReturnData res ! 0) = Inr symbol \<and>
        UnpackUint8 w dai ''decimals'' (ReturnData res ! 1) = Inl err \<longrightarrow>
      fatal (main w) (''Failed to unpack decimals: '' @ err))
   \<and> (\<forall>t client dai res symbol decimals err. fetch w = Inr (t, client, dai, res) \<and>
        2 < length (ReturnData res) \<and>
        UnpackString w dai ''symbol'' (ReturnData res ! 0) = Inr symbol \<and>
        UnpackUint8 w dai ''decimals'' (ReturnData res ! 1) = Inr decimals \<and>
        UnpackBigInt w dai ''balanceOf'' (ReturnData res ! 2) = Inl err \<longrightarrow>
      fatal (main w) (''Failed to unpack balance: '' @ err))
   \<and> (\<forall>err. godotenv_Load w = Some err \<longrightarrow>
        events (main w) =
          LogPrint ''No .env file found, using system environment variables''
            # events (main (w\<lparr>dotenv := Inr Map.empty\<rparr>)) \<and>
        exit (main w) = exit (main (w\<lparr>dotenv := Inr Map.empty\<rparr>)))"
  by (intro conjI allI impI; (elim conjE)?)
     (erule fatal_config fatal_connect fatal_parse_multicall fatal_parse_dai fatal_pack_symbol
        fatal_pack_decimals fatal_pack_balanceOf fatal_pack_multicall fatal_execute
        fatal_unpack_multicall fatal_unpack_symbol fatal_unpack_decimals fatal_unpack_balance
        dotenv_error_continues; assumption)+

lemma prepared_okWorld:
  "prepared okWorld =
     Inr ([LogPrint ''No .env file found, using system environment variables'',
           DialEv ''http://localhost:8545''], 7, multicall3ABI, daiABI, okCalls)"
  by (simp add: prepared_def parsed_def dialed_def step_defs okWorld_def godotenv_Load_def
      os_Getenv_def loaded_environ_def okCalls_def)

text \<open>
  C6 (as stated). Not every error of every step is fatal: in the world \<open>okWorld\<close>
  the load of the \<^verbatim>\<open>.env\<close> file returns an error, and the run completes with status 0
  and its four lines.
\<close>

theorem dotenv_error_is_not_fatal:
  "godotenv_Load okWorld = Some ''open .env: no such file or directory''
   \<and> exit (main okWorld) = Return
   \<and> exit_status (exit (main okWorld)) = 0
   \<and> length (filter isPrintf (events (main okWorld))) = 4"
  by (simp add: main_okWorld exit_status_def) (simp add: godotenv_Load_def okWorld_def)

lemmas world_defs = failingWorld_def okWorld_def godotenv_Load_def os_Getenv_def loaded_environ_def
  okLog_def okCalls_def okMsg_def

lemma ABIs_differ: "multicall3ABI \<noteq> daiABI"
  by (simp add: multicall3ABI_def daiABI_def)

text \<open>C6 in fourteen worlds, one for each step that can return an error.\<close>

theorem step_errors_are_fatal_witness:
  "fatal (main noURLWorld) ''MAINNET_RPC_URL environment variable is required''
   \<and> fatal (main (failingWorld ''connect''))
        ''Failed to connect to the Ethereum client: connection refused''
   \<and> fatal (main (failingWorld ''parse Multicall3 ABI''))
        ''Failed to parse Multicall3 ABI: invalid character''
   \<and> fatal (main (failingWorld ''parse DAI ABI'')) ''Failed to parse DAI ABI: invalid character''
   \<and> fatal (main (failingWorld ''pack symbol'')) ''Failed to pack symbol call: abi: cannot pack''
   \<and> fatal (main (failingWorld ''pack decimals''))
        ''Failed to pack decimals call: abi: cannot pack''
   \<and> fatal (main (failingWorld ''pack balanceOf''))
        ''Failed to pack balanceOf call: abi: cannot pack''
   \<and> fatal (main (failingWorld ''pack aggregate'')) ''Failed to pack multicall: abi: cannot pack''
   \<and> fatal (main revertWorld) ''Failed to execute multicall: execution reverted''
   \<and> fatal (main (failingWorld ''unpack aggregate''))
        ''Failed to unpack multicall result: abi: cannot unmarshal''
   \<and> fatal (main (failingWorld ''unpack symbol''))
        ''Failed to unpack symbol: abi: cannot unmarshal''
   \<and> fatal (main (failingWorld ''unpack decimals''))
        ''Failed to unpack decimals: abi: cannot unmarshal''
   \<and> fatal (main (failingWorld ''unpack balance''))
        ''Failed to unpack balance: abi: cannot unmarshal''
   \<and> events (main okWorld) =
        LogPrint ''No .env file found, using system environment variables''
          # events (main (okWorld\<lparr>dotenv := Inr Map.empty\<rparr>))"
proof -
  note T = step_errors_are_fatal
  note c1 = T [THEN conjunct1]
  note r1 = T [THEN conjunct2]
  note c2 = r1 [THEN conjunct1]
  note r2 = r1 [THEN conjunct2]
  note c3 = r2 [THEN conjunct1]
  note r3 = r2 [THEN conjunct2]
  note c4 = r3 [THEN conjunct1]
  note r4 = r3 [THEN conjunct2]
  note c5 = r4 [THEN conjunct1]
  note r5 = r4 [THEN conjunct2]
  note c6 = r5 [THEN conjunct1]
  note r6 = r5 [THEN conjunct2]
  note c7 = r6 [THEN conjunct1]
  note r7 = r6 [THEN conjunct2]
  note c8 = r7 [THEN conjunct1]
  note r8 = r7 [THEN conjunct2]
  note c9 = r8 [THEN conjunct1]
  note r9 = r8 [THEN conjunct2]
  note c10 = r9 [THEN conjunct1]
  note r10 = r9 [THEN conjunct2]
  note c11 = r10 [THEN conjunct1]
  note r11 = r10 [THEN conjunct2]
  note c12 = r11 [THEN conjunct1]
  note r12 = r11 [THEN conjunct2]
  note c13 = r12 [THEN conjunct1]
  note c14 = r12 [THEN conjunct2]
  have 1: "fatal (main noURLWorld) ''MAINNET_RPC_URL environment variable is required''"
    by (rule c1 [rule_format]) (simp add: noURLWorld_def world_defs)
  have "config (failingWorld ''connect'') =
          Inr ([LogPrint ''No .env file found, using system environment variables''],
               ''http://localhost:8545'')"
    and "Dial (failingWorld ''connect'') ''http://localhost:8545'' = Inl ''connection refused''"
    by (simp_all add: config_def world_defs)
  then have 2: "fatal (main (failingWorld ''connect''))
      (''Failed to connect to the Ethereum client: '' @ ''connection refused'')"
    by (intro c2 [rule_format] conjI)
  have "dialed (failingWorld ''parse Multicall3 ABI'') = Inr (okLog, 7)"
    and "abi_JSON (failingWorld ''parse Multicall3 ABI'') multicall3ABI = Some ''invalid character''"
    by (simp_all add: dialed_def config_def connect_def world_defs)
  then have 3: "fatal (main (failingWorld ''parse Multicall3 ABI''))
      (''Failed to parse Multicall3 ABI: '' @ ''invalid character'')"
    by (intro c3 [rule_format] conjI)
  have "dialed (failingWorld ''parse DAI ABI'') = Inr (okLog, 7)"
    and "abi_JSON (failingWorld ''parse DAI ABI'') multicall3ABI = None"
    and "abi_JSON (failingWorld ''parse DAI ABI'') daiABI = Some ''invalid character''"
    by (simp_all add: dialed_def config_def connect_def world_defs ABIs_differ)
  then have 4: "fatal (main (failingWorld ''parse DAI ABI''))
      (''Failed to parse DAI ABI: '' @ ''invalid character'')"
    by (intro c4 [rule_format] conjI)
  have "parsed (failingWorld ''pack symbol'') = Inr (okLog, 7, multicall3ABI, daiABI)"
    and "Pack (failingWorld ''pack symbol'') daiABI ''symbol'' [] = Inl ''abi: cannot pack''"
    by (simp_all add: parsed_def parseABIs_def dialed_def config_def connect_def world_defs)
  then have 5: "fatal (main (failingWorld ''pack symbol''))
      (''Failed to pack symbol call: '' @ ''abi: cannot pack'')"
    by (intro c5 [rule_format] conjI)
  have "parsed (failingWorld ''pack decimals'') = Inr (okLog, 7, multicall3ABI, daiABI)"
    and "Pack (failingWorld ''pack decimals'') daiABI ''symbol'' [] = Inr (selector ''symbol'')"
    and "Pack (failingWorld ''pack decimals'') daiABI ''decimals'' [] = Inl ''abi: cannot pack''"
    by (simp_all add: parsed_def parseABIs_def dialed_def config_def connect_def world_defs)
  then have 6: "fatal (main (failingWorld ''pack decimals''))
      (''Failed to pack decimals call: '' @ ''abi: cannot pack'')"
    by (intro c6 [rule_format] conjI)
  have "parsed (failingWorld ''pack balanceOf'') = Inr (okLog, 7, multicall3ABI, daiABI)"
    and "Pack (failingWorld ''pack balanceOf'') daiABI ''symbol'' [] = Inr (selector ''symbol'')"
    and "Pack (failingWorld ''pack balanceOf'') daiABI ''decimals'' [] = Inr (selector ''decimals'')"
    and "Pack (failingWorld ''pack balanceOf'') daiABI ''balanceOf'' [ArgAddress vitalikAddress]
           = Inl ''abi: cannot pack''"
    by (simp_all add: parsed_def parseABIs_def dialed_def config_def connect_def world_defs)
  then have 7: "fatal (main (failingWorld ''pack balanceOf''))
      (''Failed to pack balanceOf call: '' @ ''abi: cannot pack'')"
    by (intro c7 [rule_format] conjI)
  have "prepared (failingWorld ''pack aggregate'') = Inr (okLog, 7, multicall3ABI, daiABI, okCalls)"
    and "Pack (failingWorld ''pack aggregate'') multicall3ABI ''aggregate'' [ArgCalls okCalls]
           = Inl ''abi: cannot pack''"
    by (simp_all add: prepared_def parsed_def dialed_def step_defs world_defs)
  then have 8: "fatal (main (failingWorld ''pack aggregate''))
      (''Failed to pack multicall: '' @ ''abi: cannot pack'')"
    by (intro c8 [rule_format] conjI)
  have "prepared revertWorld = Inr (okLog, 7, multicall3ABI, daiABI, okCalls)"
    and "Pack revertWorld multicall3ABI ''aggregate'' [ArgCalls okCalls] = Inr (selector ''aggregate'')"
    and "CallContract revertWorld 7
           \<lparr>To = Some multicall3Address, Data = selector ''aggregate'', Value = None\<rparr> None
         = Inl ''execution reverted''"
    by (simp_all add: prepared_def parsed_def dialed_def step_defs revertWorld_def world_defs)
  then have 9: "fatal (main revertWorld) (''Failed to execute multicall: '' @ ''execution reverted'')"
    by (intro c9 [rule_format] conjI)
  have "prepared (failingWorld ''unpack aggregate'')
          = Inr (okLog, 7, multicall3ABI, daiABI, okCalls)"
    and "Pack (failingWorld ''unpack aggregate'') multicall3ABI ''aggregate'' [ArgCalls okCalls]
           = Inr (selector ''aggregate'')"
    and "CallContract (failingWorld ''unpack aggregate'') 7
           \<lparr>To = Some multicall3Address, Data = selector ''aggregate'', Value = None\<rparr> None
         = Inr [0]"
    and "UnpackAggregateResult (failingWorld ''unpack aggregate'') multicall3ABI ''aggregate'' [0]
           = Inl ''abi: cannot unmarshal''"
    by (simp_all add: prepared_def parsed_def dialed_def step_defs world_defs)
  then have 10: "fatal (main (failingWorld ''unpack aggregate''))
      (''Failed to unpack multicall result: '' @ ''abi: cannot unmarshal'')"
    by (intro c10 [rule_format] conjI)
  have "fetch (failingWorld ''unpack symbol'')
          = Inr (okLog @ [CallContractEv 7 okMsg None], 7, daiABI, okResult)"
    and "0 < length (ReturnData okResult)"
    and "UnpackString (failingWorld ''unpack symbol'') daiABI ''symbol'' (ReturnData okResult ! 0)
           = Inl ''abi: cannot unmarshal''"
    by (simp_all add: run_defs world_defs okResult_def)
  then have 11: "fatal (main (failingWorld ''unpack symbol''))
      (''Failed to unpack symbol: '' @ ''abi: cannot unmarshal'')"
    by (intro c11 [rule_format] conjI)
  have "fetch (failingWorld ''unpack decimals'')
          = Inr (okLog @ [CallContractEv 7 okMsg None], 7, daiABI, okResult)"
    and "1 < length (ReturnData okResult)"
    and "UnpackString (failingWorld ''unpack decimals'') daiABI ''symbol'' (ReturnData okResult ! 0)
           = Inr ''DAI''"
    and "UnpackUint8 (failingWorld ''unpack decimals'') daiABI ''decimals'' (ReturnData okResult ! 1)
           = Inl ''abi: cannot unmarshal''"
    by (simp_all add: run_defs world_defs okResult_def)
  then have 12: "fatal (main (failingWorld ''unpack decimals''))
      (''Failed to unpack decimals: '' @ ''abi: cannot unmarshal'')"
    by (intro c12 [rule_format] conjI)
  have "fetch (failingWorld ''unpack balance'')
          = Inr (okLog @ [CallContractEv 7 okMsg None], 7, daiABI, okResult)"
    and "2 < length (ReturnData okResult)"
    and "UnpackString (failingWorld ''unpack balance'') daiABI ''symbol'' (ReturnData okResult ! 0)
           = Inr ''DAI''"
    and "UnpackUint8 (failingWorld ''unpack balance'') daiABI ''decimals'' (ReturnData okResult ! 1)
           = Inr 18"
    and "UnpackBigInt (failingWorld ''unpack balance'') daiABI ''balanceOf'' (ReturnData okResult ! 2)
           = Inl ''abi: cannot unmarshal''"
    by (simp_all add: run_defs world_defs okResult_def)
  then have 13: "fatal (main (failingWorld ''unpack balance''))
      (''Failed to unpack balance: '' @ ''abi: cannot unmarshal'')"
    by (intro c13 [rule_format] conjI)
  have "godotenv_Load okWorld = Some ''open .env: no such file or directory''"
    by (simp add: world_defs)
  then have 14: "events (main okWorld) =
        LogPrint ''No .env file found, using system environment variables''
          # events (main (okWorld\<lparr>dotenv := Inr Map.empty\<rparr>))"
    by (rule c14 [rule_format, THEN conjunct1])
  from 1 2 3 4 5 6 7 8 9 10 11 12 13 14 show ?thesis by simp
qed

subsection \<open>The order of the batch\<close>

lemma aggregateCalls_Some: "aggregateCalls exec cs = Some rs \<longleftrightarrow> map exec cs = map Some rs"
proof (induction cs arbitrary: rs)
  case Nil
  show ?case by auto
next
  case (Cons c cs)
  show ?case
  proof (cases rs)
    case Nil
    then show ?thesis by (simp split: option.splits)
  next
    case (Cons r rs')
    with Cons.IH [of rs'] show ?thesis by (auto split: option.splits)
  qed
qed

lemma aggregate_Some:
  "aggregate exec blockNumber calls = Some res \<longleftrightarrow>
     (BlockNumber res = blockNumber \<and> map exec calls = map Some (ReturnData res))"
  by (cases res)
     (auto simp: aggregate_def split: option.splits
       dest: aggregateCalls_Some [THEN iffD1] aggregateCalls_Some [THEN iffD2])

lemma aggregate_length:
  "aggregate exec blockNumber calls = Some res \<Longrightarrow> length (ReturnData res) = length calls"
  by (auto simp: aggregate_Some dest: map_eq_imp_length_eq)

lemma aggregate_nth:
  assumes "aggregate exec blockNumber calls = Some res" "i < length calls"
  shows "exec (calls ! i) = Some (ReturnData res ! i)"
proof -
  from assms(1) have m: "map exec calls = map Some (ReturnData res)" by (simp add: aggregate_Some)
  from aggregate_length [OF assms(1)] assms(2) have "i < length (ReturnData res)" by simp
  with assms(2) have "map exec calls ! i = exec (calls ! i)"
    "map Some (ReturnData res) ! i = Some (ReturnData res ! i)" by simp_all
  with m show ?thesis by simp
qed

lemma aggregate_reorder:
  assumes "aggregate exec blockNumber calls = Some res" "\<forall>i\<in>set is. i < length calls"
  shows "aggregate exec blockNumber (map ((!) calls) is) =
           Some \<lparr>BlockNumber = blockNumber, ReturnData = map ((!) (ReturnData res)) is\<rparr>"
proof -
  have "map exec (map ((!) calls) is) = map Some (map ((!) (ReturnData res)) is)"
    using assms(2) aggregate_nth [OF assms(1)] by (induction "is") simp_all
  then show ?thesis by (simp add: aggregate_Some)
qed

lemma unpackResults_three:
  assumes "length (ReturnData res) = 3"
  shows "unpackResults w t client dai res =
     (case UnpackString w dai ''symbol'' (ReturnData res ! 0) of
        Inl err \<Rightarrow> Inl (log_Fatal t (''Failed to unpack symbol: '' @ err))
      | Inr symbol \<Rightarrow>
     (case UnpackUint8 w dai ''decimals'' (ReturnData res ! 1) of
        Inl err \<Rightarrow> Inl (log_Fatal t (''Failed to unpack decimals: '' @ err))
      | Inr decimals \<Rightarrow>
     (case UnpackBigInt w dai ''balanceOf'' (ReturnData res ! 2) of
        Inl err \<Rightarrow> Inl (log_Fatal t (''Failed to unpack balance: '' @ err))
      | Inr daiBalance \<Rightarrow> Inr (symbol, decimals, daiBalance))))"
proof -
  have i: "index (ReturnData res) 0 = Inr (ReturnData res ! 0)"
    "index (ReturnData res) 1 = Inr (ReturnData res ! 1)"
    "index (ReturnData res) 2 = Inr (ReturnData res ! 2)"
    using assms by (simp_all add: index_def)
  show ?thesis unfolding unpackResults_def i sum.case by (rule refl)
qed

text \<open>
  C1. The batch the run builds is the three calls in the order symbol, decimals,
  balanceOf, and that ordered list is what is packed and sent. When the answer is the
  one of the aggregation contract for this batch, it has one entry per call, the i-th
  entry is the answer to the i-th call, and the decodes take entry 0 as the symbol,
  entry 1 as the decimals and entry 2 as the balance, with no index out of range.
  Reordering the calls by any list of indices reorders the answer in the same way.
\<close>

theorem batch_order_is_preserved:
  assumes "prepared w = Inr (t, client, mc, dai, calls)"
      and "aggregate exec blockNumber calls = Some res"
  shows "(\<exists>symbolData decimalsData balanceData.
            Pack w dai ''symbol'' [] = Inr symbolData \<and>
            Pack w dai ''decimals'' [] = Inr decimalsData \<and>
            Pack w dai ''balanceOf'' [ArgAddress vitalikAddress] = Inr balanceData \<and>
            calls = [\<lparr>Target = daiAddress, CallData = symbolData\<rparr>,
                     \<lparr>Target = daiAddress, CallData = decimalsData\<rparr>,
                     \<lparr>Target = daiAddress, CallData = balanceData\<rparr>])
       \<and> (\<forall>t' res'. execute w t client mc calls = Inr (t', res') \<longrightarrow>
            (\<exists>multicallData.
               Pack w mc ''aggregate'' [ArgCalls calls] = Inr multicallData \<and>
               t' = t @ [CallContractEv client
                           \<lparr>To = Some multicall3Address, Data = multicallData, Value = None\<rparr> None]))
       \<and> length (ReturnData res) = length calls
       \<and> (\<forall>i<length calls. exec (calls ! i) = Some (ReturnData res ! i))
       \<and> (\<forall>t'. unpackResults w t' client dai res =
            (case UnpackString w dai ''symbol'' (ReturnData res ! 0) of
               Inl err \<Rightarrow> Inl (log_Fatal t' (''Failed to unpack symbol: '' @ err))
             | Inr symbol \<Rightarrow>
            (case UnpackUint8 w dai ''decimals'' (ReturnData res ! 1) of
               Inl err \<Rightarrow> Inl (log_Fatal t' (''Failed to unpack decimals: '' @ err))
             | Inr decimals \<Rightarrow>
            (case UnpackBigInt w dai ''balanceOf'' (ReturnData res ! 2) of
               Inl err \<Rightarrow> Inl (log_Fatal t' (''Failed to unpack balance: '' @ err))
             | Inr daiBalance \<Rightarrow> Inr (symbol, decimals, daiBalance)))))
       \<and> (\<forall>is. (\<forall>i\<in>set is. i < length calls) \<longrightarrow>
            aggregate exec blockNumber (map ((!) calls) is) =
              Some \<lparr>BlockNumber = blockNumber, ReturnData = map ((!) (ReturnData res)) is\<rparr>)"
proof -
  from assms(1) have p: "prepareCalls w t dai = Inr calls" by (simp add: prepared_Inr)
  then have 1: "\<exists>symbolData decimalsData balanceData.
            Pack w dai ''symbol'' [] = Inr symbolData \<and>
            Pack w dai ''decimals'' [] = Inr decimalsData \<and>
            Pack w dai ''balanceOf'' [ArgAddress vitalikAddress] = Inr balanceData \<and>
            calls = [\<lparr>Target = daiAddress, CallData = symbolData\<rparr>,
                     \<lparr>Target = daiAddress, CallData = decimalsData\<rparr>,
                     \<lparr>Target = daiAddress, CallData = balanceData\<rparr>]"
    by (simp add: prepareCalls_Inr)
  then have l: "length calls = 3" by auto
  have 2: "\<forall>t' res'. execute w t client mc calls = Inr (t', res') \<longrightarrow>
            (\<exists>multicallData.
               Pack w mc ''aggregate'' [ArgCalls calls] = Inr multicallData \<and>
               t' = t @ [CallContractEv client
                           \<lparr>To = Some multicall3Address, Data = multicallData, Value = None\<rparr> None])"
    by (auto simp: execute_Inr)
  have 3: "length (ReturnData res) = length calls" using assms(2) by (rule aggregate_length)
  have 4: "\<forall>i<length calls. exec (calls ! i) = Some (ReturnData res ! i)"
    using aggregate_nth [OF assms(2)] by blast
  have 5: "\<forall>t'. unpackResults w t' client dai res =
            (case UnpackString w dai ''symbol'' (ReturnData res ! 0) of
               Inl err \<Rightarrow> Inl (log_Fatal t' (''Failed to unpack symbol: '' @ err))
             | Inr symbol \<Rightarrow>
            (case UnpackUint8 w dai ''decimals'' (ReturnData res ! 1) of
               Inl err \<Rightarrow> Inl (log_Fatal t' (''Failed to unpack decimals: '' @ err))
             | Inr decimals \<Rightarrow>
            (case UnpackBigInt w dai ''balanceOf'' (ReturnData res ! 2) of
               Inl err \<Rightarrow> Inl (log_Fatal t' (''Failed to unpack balance: '' @ err))
             | Inr daiBalance \<Rightarrow> Inr (symbol, decimals, daiBalance))))"
    using 3 l by (simp add: unpackResults_three)
  have 6: "\<forall>is. (\<forall>i\<in>set is. i < length calls) \<longrightarrow>
            aggregate exec blockNumber (map ((!) calls) is) =
              Some \<lparr>BlockNumber = blockNumber, ReturnData = map ((!) (ReturnData res)) is\<rparr>"
    using aggregate_reorder [OF assms(2)] by blast
  from 1 2 3 4 5 6 show ?thesis by (intro conjI)
qed

lemma aggregate_okExec: "aggregate okExec 12345678 okCalls = Some okResult"
  by (simp add: aggregate_def okExec_def okCalls_def okResult_def selector_def)

text \<open>
  C1 in the world in which every step succeeds, with a chain that answers the three
  calls, and with the calls reordered to balanceOf, symbol, decimals.
\<close>

theorem batch_order_is_preserved_witness:
  "prepared okWorld = Inr (okLog, 7, multicall3ABI, daiABI, okCalls)
   \<and> aggregate okExec 12345678 okCalls = Some okResult
   \<and> execute okWorld okLog 7 multicall3ABI okCalls
        = Inr (okLog @ [CallContractEv 7 okMsg None], okResult)
   \<and> (\<exists>multicallData.
         Pack okWorld multicall3ABI ''aggregate'' [ArgCalls okCalls] = Inr multicallData \<and>
         okLog @ [CallContractEv 7 okMsg None] =
           okLog @ [CallContractEv 7
                      \<lparr>To = Some multicall3Address, Data = multicallData, Value = None\<rparr> None])
   \<and> length (ReturnData okResult) = length okCalls
   \<and> okExec (okCalls ! 2) = Some (ReturnData okResult ! 2)
   \<and> unpackResults okWorld [] 7 daiABI okResult = Inr (''DAI'', 18, 1234567890123456789)
   \<and> aggregate okExec 12345678 (map ((!) okCalls) [2, 0, 1]) =
        Some \<lparr>BlockNumber = 12345678, ReturnData = [[3], [1], [2]]\<rparr>"
proof -
  have p: "prepared okWorld = Inr (okLog, 7, multicall3ABI, daiABI, okCalls)"
    by (simp add: prepared_okWorld okLog_def)
  note c = batch_order_is_preserved [OF p aggregate_okExec]
  have x: "execute okWorld okLog 7 multicall3ABI okCalls
        = Inr (okLog @ [CallContractEv 7 okMsg None], okResult)"
    by (simp add: execute_def okWorld_def okMsg_def)
  have "\<forall>t' res'. execute okWorld okLog 7 multicall3ABI okCalls = Inr (t', res') \<longrightarrow>
          (\<exists>multicallData.
             Pack okWorld multicall3ABI ''aggregate'' [ArgCalls okCalls] = Inr multicallData \<and>
             t' = okLog @ [CallContractEv 7
                      \<lparr>To = Some multicall3Address, Data = multicallData, Value = None\<rparr> None])"
    using c by blast
  with x have 0: "\<exists>multicallData.
         Pack okWorld multicall3ABI ''aggregate'' [ArgCalls okCalls] = Inr multicallData \<and>
         okLog @ [CallContractEv 7 okMsg None] =
           okLog @ [CallContractEv 7
                      \<lparr>To = Some multicall3Address, Data = multicallData, Value = None\<rparr> None]"
    by blast
  have 1: "length (ReturnData okResult) = length okCalls" using c by blast
  have "\<forall>i<length okCalls. okExec (okCalls ! i) = Some (ReturnData okResult ! i)"
    using c by blast
  moreover have "2 < length okCalls" by (simp add: okCalls_def)
  ultimately have 2: "okExec (okCalls ! 2) = Some (ReturnData okResult ! 2)" by blast
  have "unpackResults okWorld [] 7 daiABI okResult =
            (case UnpackString okWorld daiABI ''symbol'' (ReturnData okResult ! 0) of
               Inl err \<Rightarrow> Inl (log_Fatal [] (''Failed to unpack symbol: '' @ err))
             | Inr symbol \<Rightarrow>
            (case UnpackUint8 okWorld daiABI ''decimals'' (ReturnData okResult ! 1) of
               Inl err \<Rightarrow> Inl (log_Fatal [] (''Failed to unpack decimals: '' @ err))
             | Inr decimals \<Rightarrow>
            (case UnpackBigInt okWorld daiABI ''balanceOf'' (ReturnData okResult ! 2) of
               Inl err \<Rightarrow> Inl (log_Fatal [] (''Failed to unpack balance: '' @ err))
             | Inr daiBalance \<Rightarrow> Inr (symbol, decimals, daiBalance))))"
    using c by blast
  then have 3: "unpackResults okWorld [] 7 daiABI okResult = Inr (''DAI'', 18, 1234567890123456789)"
    by (simp add: okWorld_def okResult_def)
  have "\<forall>i\<in>set [2, 0, 1]. i < length okCalls" by (simp add: okCalls_def)
  with c have "aggregate okExec 12345678 (map ((!) okCalls) [2, 0, 1]) =
        Some \<lparr>BlockNumber = 12345678, ReturnData = map ((!) (ReturnData okResult)) [2, 0, 1]\<rparr>"
    by blast
  then have 4: "aggregate okExec 12345678 (map ((!) okCalls) [2, 0, 1]) =
        Some \<lparr>BlockNumber = 12345678, ReturnData = [[3], [1], [2]]\<rparr>"
    by (simp add: okResult_def)
  from p aggregate_okExec x 0 1 2 3 4 show ?thesis by (intro conjI)
qed

subsection \<open>The precision of the quotient\<close>

lemma roundHalfEven_floor:
  assumes "0 < d"
  shows "n div d \<le> roundHalfEven n d" "roundHalfEven n d \<le> n div d + 1"
  by (simp_all add: roundHalfEven_def Let_def)

lemma roundHalfEven_error:
  assumes "0 < d"
  shows "\<bar>real (roundHalfEven n d) - real n / real d\<bar> \<le> 1 / 2"
proof -
  define q where "q = n div d"
  define r where "r = n mod d"
  have n: "real n = real q * real d + real r"
    unfolding q_def r_def by (metis div_mult_mod_eq of_nat_add of_nat_mult)
  have r: "r < d" using assms by (simp add: r_def)
  have dpos: "0 < real d" using assms by simp
  have frac: "real n / real d = real q + real r / real d"
    using dpos by (simp add: n field_simps)
  show ?thesis
  proof (cases "d < 2 * r \<or> (2 * r = d \<and> odd q)")
    case True
    then have up: "roundHalfEven n d = q + 1"
      by (simp add: roundHalfEven_def Let_def q_def r_def)
    from True have "d \<le> 2 * r" by auto
    then have "real d \<le> real (2 * r)" by (rule of_nat_mono)
    then have "real d \<le> 2 * real r" by simp
    then have "1 - real r / real d \<le> 1 / 2" using dpos by (simp add: field_simps)
    moreover have "real r / real d \<le> 1" using r dpos by simp
    ultimately show ?thesis by (simp add: up frac)
  next
    case False
    then have down: "roundHalfEven n d = q"
      by (simp add: roundHalfEven_def Let_def q_def r_def)
    from False have "2 * r \<le> d" by auto
    then have "real (2 * r) \<le> real d" by (rule of_nat_mono)
    then have "2 * real r \<le> real d" by simp
    then have "real r / real d \<le> 1 / 2" using dpos by (simp add: field_simps)
    moreover have "0 \<le> real r / real d" by simp
    ultimately show ?thesis by (simp add: down frac)
  qed
qed

lemma scaled_pos: "0 < b \<Longrightarrow> 0 < snd (scaled a b s)"
  by (simp add: scaled_def)

lemma scaled_ratio:
  assumes "0 < b"
  shows "real (fst (scaled a b s)) / real (snd (scaled a b s)) = real a * 2 powi s / real b"
proof (cases "0 \<le> s")
  case True
  then show ?thesis by (simp add: scaled_def power_int_def)
next
  case False
  then show ?thesis by (simp add: scaled_def power_int_def field_simps)
qed

lemma div_ge_iff_real:
  assumes "0 < d"
  shows "k \<le> n div d \<longleftrightarrow> real k \<le> real n / real d"
proof -
  have "k \<le> n div d \<longleftrightarrow> k * d \<le> n" using assms by (simp add: less_eq_div_iff_mult_less_eq)
  also have "\<dots> \<longleftrightarrow> real k * real d \<le> real n" by (metis of_nat_le_iff of_nat_mult)
  also have "\<dots> \<longleftrightarrow> real k \<le> real n / real d" using assms by (simp add: field_simps)
  finally show ?thesis .
qed


lemma bitLen_real_bounds:
  assumes "0 < n"
  shows "2 powi int (bitLen n) \<le> 2 * real n" "real n < 2 powi int (bitLen n)"
proof -
  from bitLen_bounds [OF assms] have lo: "2 ^ (bitLen n - 1) \<le> n" and hi: "n < 2 ^ bitLen n"
    by simp_all
  have l: "0 < bitLen n" using assms by (simp add: bitLen_pos)
  have "(2::nat) ^ bitLen n = 2 * 2 ^ (bitLen n - 1)"
    using l by (cases "bitLen n") simp_all
  then have "2 ^ bitLen n \<le> 2 * n" using lo by simp
  then have "real (2 ^ bitLen n) \<le> real (2 * n)" by (rule of_nat_mono)
  then show "2 powi int (bitLen n) \<le> 2 * real n" by simp
  from hi have "real n < real (2 ^ bitLen n)" by (simp only: of_nat_less_iff)
  then show "real n < 2 powi int (bitLen n)" by simp
qed

lemma quoShift_range:
  assumes "0 < a" "0 < b"
  shows "2 powi int p \<le> 2 * (real a * 2 powi quoShift p a b / real b)"
    and "real a * 2 powi quoShift p a b / real b < 2 powi int p"
proof -
  define s0 where "s0 = int p - (int (bitLen a) - int (bitLen b))"
  define A :: real where "A = 2 powi int (bitLen a)"
  define B :: real where "B = 2 powi int (bitLen b)"
  define S :: real where "S = 2 powi s0"
  define P :: real where "P = 2 powi int p"
  define Q0 where "Q0 = real a * S / real b"
  have pos: "0 < A" "0 < B" "0 < S" "0 < P" by (simp_all add: A_def B_def S_def P_def)
  have ra: "0 < real a" and rb: "0 < real b" using assms by simp_all
  have "s0 + int (bitLen a) = int p + int (bitLen b)" by (simp add: s0_def)
  then have "(2::real) powi (s0 + int (bitLen a)) = 2 powi (int p + int (bitLen b))" by simp
  then have SA: "S * A = P * B" by (simp add: power_int_add S_def A_def B_def P_def)
  from bitLen_real_bounds [OF assms(1)] have a: "A \<le> 2 * real a" "real a < A"
    by (simp_all add: A_def)
  from bitLen_real_bounds [OF assms(2)] have b: "B \<le> 2 * real b" "real b < B"
    by (simp_all add: B_def)
  have "real a * S < A * S" using a(2) pos(3) by (rule mult_strict_right_mono)
  also have "A * S = P * B" using SA by (simp add: mult.commute)
  also have "P * B \<le> P * (2 * real b)" using b(1) pos(4) by (intro mult_left_mono) simp_all
  finally have up: "real a * S < 2 * P * real b" by simp
  have "P * real b < P * B" using b(2) pos(4) by (rule mult_strict_left_mono)
  also have "P * B = S * A" using SA by simp
  also have "S * A \<le> S * (2 * real a)" using a(1) pos(3) by (intro mult_left_mono) simp_all
  finally have lo: "P * real b < 2 * (real a * S)" by (simp add: mult_ac)
  have Q0_hi: "Q0 < 2 * P" using up rb by (simp add: Q0_def field_simps)
  have Q0_lo: "P < 2 * Q0" using lo rb by (simp add: Q0_def field_simps)
  have cond: "2 ^ p \<le> fst (scaled a b s0) div snd (scaled a b s0) \<longleftrightarrow> P \<le> Q0"
    using div_ge_iff_real [of "snd (scaled a b s0)" "2 ^ p" "fst (scaled a b s0)"]
      scaled_pos [OF assms(2), of a s0]
    by (simp add: scaled_ratio [OF assms(2)] Q0_def S_def P_def)
  show "2 powi int p \<le> 2 * (real a * 2 powi quoShift p a b / real b)"
    and "real a * 2 powi quoShift p a b / real b < 2 powi int p"
  proof -
    have *: "2 powi int p \<le> 2 * (real a * 2 powi quoShift p a b / real b)
        \<and> real a * 2 powi quoShift p a b / real b < 2 powi int p"
    proof (cases "P \<le> Q0")
      case True
      then have s: "quoShift p a b = s0 - 1"
        using cond by (simp add: quoShift_def Let_def s0_def)
      have h: "(2::real) powi (s0 - 1) = S / 2" by (simp add: S_def power_int_diff)
      have e: "real a * 2 powi (s0 - 1) / real b = Q0 / 2" unfolding h Q0_def by simp
      show ?thesis unfolding s e P_def [symmetric] using True Q0_hi by simp
    next
      case False
      then have s: "quoShift p a b = s0"
        using cond by (simp add: quoShift_def Let_def s0_def)
      have e: "real a * 2 powi s0 / real b = Q0" by (simp add: Q0_def S_def)
      show ?thesis unfolding s e P_def [symmetric] using False Q0_lo by simp
    qed
    from * show "2 powi int p \<le> 2 * (real a * 2 powi quoShift p a b / real b)" by simp
    from * show "real a * 2 powi quoShift p a b / real b < 2 powi int p" by simp
  qed
qed

lemma uquo_bounds:
  assumes "0 < fl_mant x" "0 < fl_mant y" "0 < p" "fl_exp x = 0" "fl_exp y = 0"
  shows "2 ^ (p - 1) \<le> fst (uquo p x y) \<and> fst (uquo p x y) < 2 ^ p \<and>
         \<bar>real (fst (uquo p x y)) * 2 powi snd (uquo p x y) - real (fl_mant x) / real (fl_mant y)\<bar>
           \<le> 2 powi snd (uquo p x y) / 2"
proof -
  define a where "a = fl_mant x"
  define b where "b = fl_mant y"
  define s where "s = quoShift p a b"
  define n where "n = fst (scaled a b s)"
  define d where "d = snd (scaled a b s)"
  define m0 where "m0 = roundHalfEven n d"
  define Q where "Q = real a * 2 powi s / real b"
  define u :: real where "u = 2 powi (- s)"
  have apos: "0 < a" and bpos: "0 < b" using assms by (simp_all add: a_def b_def)
  have dpos: "0 < d" unfolding d_def using bpos by (rule scaled_pos)
  have ratio: "real n / real d = Q" unfolding n_def d_def Q_def using bpos by (rule scaled_ratio)
  from quoShift_range [OF apos bpos, of p]
  have Q_lo: "2 powi int p \<le> 2 * Q" and Q_hi: "Q < 2 powi int p" by (simp_all add: Q_def s_def)
  have "(2::real) powi int p = 2 ^ p" by (rule power_int_of_nat)
  also have "\<dots> = 2 * 2 ^ (p - 1)" using assms(3) by (cases p) simp_all
  finally have pp: "(2::real) powi int p = 2 * 2 ^ (p - 1)" .
  from Q_lo have "2 * (2::real) ^ (p - 1) \<le> 2 * Q" by (simp only: pp)
  then have "real (2 ^ (p - 1)) \<le> real n / real d" by (simp add: ratio)
  then have fl_lo: "2 ^ (p - 1) \<le> n div d" by (simp add: div_ge_iff_real [OF dpos])
  have "\<not> real (2 ^ p) \<le> real n / real d" using Q_hi by (simp add: ratio)
  then have "\<not> 2 ^ p \<le> n div d" by (simp add: div_ge_iff_real [OF dpos])
  then have fl_hi: "n div d < 2 ^ p" by simp
  from roundHalfEven_floor [OF dpos, of n] fl_lo fl_hi
  have m_lo: "2 ^ (p - 1) \<le> m0" and m_hi: "m0 \<le> 2 ^ p" by (simp_all add: m0_def)
  have err: "\<bar>real m0 - Q\<bar> \<le> 1 / 2"
    using roundHalfEven_error [OF dpos, of n] by (simp add: m0_def ratio)
  have upos: "0 < u" by (simp add: u_def)
  have "(2::real) powi s * 2 powi (- s) = 1" by (simp add: power_int_minus)
  then have Qu: "Q * u = real a / real b" by (simp add: Q_def u_def)
  have "\<bar>real m0 * u - Q * u\<bar> = \<bar>real m0 - Q\<bar> * u"
    using upos by (simp add: abs_mult flip: left_diff_distrib)
  also have "\<dots> \<le> 1 / 2 * u" using err upos by (intro mult_right_mono) simp_all
  finally have bound: "\<bar>real m0 * u - real a / real b\<bar> \<le> u / 2" by (simp add: Qu)
  have uq: "uquo p x y = (if m0 = 2 ^ p then (2 ^ (p - 1), - s + 1) else (m0, - s))"
    by (simp add: uquo_def Let_def assms(4,5) a_def [symmetric] b_def [symmetric]
        s_def [symmetric] n_def [symmetric] d_def [symmetric] m0_def [symmetric])
  show ?thesis
  proof (cases "m0 = 2 ^ p")
    case True
    have u2: "(2::real) powi (- s + 1) = 2 * u"
      using power_int_add [of "2::real" "- s" 1] by (simp add: u_def)
    have sel: "fst (uquo p x y) = 2 ^ (p - 1)" "snd (uquo p x y) = - s + 1"
      by (simp_all add: uq True)
    have "real (2 ^ p) = 2 * real (2 ^ (p - 1))" using pp by simp
    then have val: "real (2 ^ (p - 1)) * (2 * u) = real m0 * u" by (simp add: True)
    have "\<bar>real (2 ^ (p - 1)) * (2 * u) - real a / real b\<bar> \<le> 2 * u / 2"
      unfolding val using bound upos by simp
    then have "\<bar>real (fst (uquo p x y)) * 2 powi snd (uquo p x y) - real a / real b\<bar>
        \<le> 2 powi snd (uquo p x y) / 2"
      unfolding sel u2 .
    moreover have "2 ^ (p - 1) \<le> fst (uquo p x y)" "fst (uquo p x y) < 2 ^ p"
      using assms(3) by (simp_all add: sel)
    ultimately show ?thesis by (simp add: a_def b_def)
  next
    case False
    have sel: "fst (uquo p x y) = m0" "snd (uquo p x y) = - s" by (simp_all add: uq False)
    from False m_hi have "m0 < 2 ^ p" by simp
    with m_lo bound show ?thesis unfolding sel u_def a_def b_def by simp
  qed
qed

text \<open>
  C3 (as stated). The division does lose precision, on an integer of 64 bits: for the
  balance 16000000000000000001 and 18 decimals the quotient is rounded to the 64-bit
  mantissa \<open>2 ^ 63 + 1\<close> at the exponent \<open>- 59\<close>, which is not the exact quotient, and
  the text printed is "16.000000000000000002".
\<close>

theorem quotient_loses_precision:
  "daiBalanceFloat 16000000000000000001 18 =
     Inr \<lparr>fl_prec = 64, fl_form = form_finite, fl_neg = False,
          fl_mant = 9223372036854775809, fl_exp = - 59\<rparr>
   \<and> Float_value \<lparr>fl_prec = 64, fl_form = form_finite, fl_neg = False,
          fl_mant = 9223372036854775809, fl_exp = - 59\<rparr> \<noteq> 16000000000000000001 / 10 ^ 18
   \<and> balanceText 16000000000000000001 18 = Inr ''16.000000000000000002''"
proof -
  have b: "bitLen 16000000000000000001 = 64" "bitLen 1000000000000000000 = 60"
    by (rule bitLen_eqI; simp)+
  have s: "quoShift 64 16000000000000000001 1000000000000000000 = 59"
    unfolding quoShift_def b by (simp add: scaled_def)
  have u: "uquo 64 (SetInt 16000000000000000001) (SetInt 1000000000000000000)
      = (9223372036854775809, - 59)"
    by (simp add: uquo_def SetInt_sel s scaled_def roundHalfEven_def)
  have q: "daiBalanceFloat 16000000000000000001 18 =
     Inr \<lparr>fl_prec = 64, fl_form = form_finite, fl_neg = False,
          fl_mant = 9223372036854775809, fl_exp = - 59\<rparr>"
    by (simp add: daiBalanceFloat_def Quo_def Let_def u SetInt_sel b)
  have v: "Float_value \<lparr>fl_prec = 64, fl_form = form_finite, fl_neg = False,
          fl_mant = 9223372036854775809, fl_exp = - 59\<rparr> \<noteq> 16000000000000000001 / 10 ^ 18"
    by (simp add: Float_value_def power_int_def field_simps)
  have d: "decimalRound \<lparr>fl_prec = 64, fl_form = form_finite, fl_neg = False,
      fl_mant = 9223372036854775809, fl_exp = - 59\<rparr> 18 = 16000000000000000002"
    by (simp add: decimalRound_def roundHalfEven_def)
  have f: "fmtF 18 16000000000000000002 = ''16.000000000000000002''"
    by (simp add: fmtF_def eval_simps)
  have t: "balanceText 16000000000000000001 18 = Inr ''16.000000000000000002''"
    by (simp add: balanceText_def q Text_f_def d f)
  from q v t show ?thesis by (intro conjI)
qed

text \<open>
  C3 (amended). The division of the raw balance by \<open>10 ^ decimals\<close> is carried out in
  binary floating point, at a precision of \<open>p = max(64, bitlen(balance),
  bitlen(10 ^ decimals))\<close> mantissa bits and rounded to nearest: it never panics, the
  stored quotient has a mantissa of \<open>p\<close> bits (normalised when the balance is not zero)
  and differs from the exact quotient by at most half a unit in the last place of that
  mantissa; the quotient of a zero balance is zero.
\<close>

theorem quotient_rounded_to_float_precision:
  "\<exists>q. daiBalanceFloat daiBalance decimals = Inr q
       \<and> fl_prec q = max 64 (max (bitLen (nat \<bar>daiBalance\<bar>)) (bitLen (10 ^ unat decimals)))
       \<and> fl_mant q < 2 ^ fl_prec q
       \<and> (if daiBalance = 0 then Float_value q = 0 else 2 ^ (fl_prec q - 1) \<le> fl_mant q)
       \<and> \<bar>Float_value q - real_of_int daiBalance / 10 ^ unat decimals\<bar> \<le> 2 powi fl_exp q / 2"
proof (cases "daiBalance = 0")
  case True
  then show ?thesis
    by (simp add: daiBalanceFloat_def Quo_def Let_def SetInt_sel Float_value_def nat_power_eq
        bitLen_0 max_def)
next
  case False
  define x where "x = SetInt daiBalance"
  define y where "y = SetInt (10 ^ unat decimals)"
  define p where "p = max (fl_prec x) (fl_prec y)"
  define a where "a = nat \<bar>daiBalance\<bar>"
  have xs: "fl_mant x = a" "fl_exp x = 0" "fl_form x = form_finite" "fl_neg x = (daiBalance < 0)"
    using False by (simp_all add: x_def a_def SetInt_sel)
  have ys: "fl_mant y = 10 ^ unat decimals" "fl_exp y = 0" "fl_form y = form_finite"
    "fl_neg y = False"
    by (simp_all add: y_def SetInt_sel nat_power_eq)
  have p: "p = max 64 (max (bitLen a) (bitLen (10 ^ unat decimals)))"
    by (simp add: p_def x_def y_def SetInt_sel a_def nat_power_eq max_def)
  then have ppos: "0 < p" by simp
  have apos: "0 < fl_mant x" using False by (simp add: xs a_def)
  have bpos: "0 < fl_mant y" by (simp add: ys)
  define q where "q = \<lparr>fl_prec = p, fl_form = form_finite, fl_neg = (daiBalance < 0),
      fl_mant = fst (uquo p x y), fl_exp = snd (uquo p x y)\<rparr>"
  have Q: "daiBalanceFloat daiBalance decimals = Inr q"
    by (simp add: daiBalanceFloat_def x_def [symmetric] y_def [symmetric] Quo_def Let_def
        p_def [symmetric] xs ys q_def)
  from uquo_bounds [OF apos bpos ppos xs(2) ys(2)]
  have m: "2 ^ (p - 1) \<le> fl_mant q" "fl_mant q < 2 ^ p"
    and e: "\<bar>real (fl_mant q) * 2 powi fl_exp q - real a / 10 ^ unat decimals\<bar> \<le> 2 powi fl_exp q / 2"
    by (simp_all add: q_def xs ys)
  have v: "\<bar>Float_value q - real_of_int daiBalance / 10 ^ unat decimals\<bar>
      = \<bar>real (fl_mant q) * 2 powi fl_exp q - real a / 10 ^ unat decimals\<bar>"
  proof (cases "daiBalance < 0")
    case True
    then have "real_of_int daiBalance = - real a" by (simp add: a_def)
    then show ?thesis
      using True by (simp add: Float_value_def q_def abs_minus_commute)
  next
    case False
    then have "real_of_int daiBalance = real a" by (simp add: a_def)
    then show ?thesis using False by (simp add: Float_value_def q_def)
  qed
  have sel: "fl_prec q = p" by (simp add: q_def)
  show ?thesis
  proof (intro exI [of _ q] conjI)
    show "daiBalanceFloat daiBalance decimals = Inr q" by (rule Q)
    show "fl_prec q = max 64 (max (bitLen (nat \<bar>daiBalance\<bar>)) (bitLen (10 ^ unat decimals)))"
      unfolding sel p a_def by (rule refl)
    show "fl_mant q < 2 ^ fl_prec q" unfolding sel by (rule m(2))
    show "if daiBalance = 0 then Float_value q = 0 else 2 ^ (fl_prec q - 1) \<le> fl_mant q"
      unfolding sel using False m(1) by (simp only: if_False)
    show "\<bar>Float_value q - real_of_int daiBalance / 10 ^ unat decimals\<bar> \<le> 2 powi fl_exp q / 2"
      unfolding v by (rule e)
  qed
qed

end
